theory Spec2Isabelle
  imports Main
begin

section \<open>JavaScript values\<close>

text \<open>
  The adapter (lib/mysql.js) is dynamically typed. The values it handles are modelled
  by one datatype. \<open>JObj\<close> is an object literal (its \<open>constructor.name\<close> is
  \<open>Object\<close>), given as its own enumerable properties in \<open>Object.keys\<close> order;
  keys are pairwise distinct and do not shadow a member of \<open>Object.prototype\<close>.
  Three kinds of objects are array-like without being arrays: \<open>JStringObject s\<close> is
  \<open>new String(s)\<close>, \<open>JArguments xs\<close> is an \<open>arguments\<close> object holding \<open>xs\<close>, and
  \<open>JTypedArray c xs\<close> is a typed array of the class named \<open>c\<close> (\<open>Uint8Array\<close>,
  \<open>Buffer\<close>, ...) with the numbers \<open>xs\<close> as elements. Other objects (instances of
  other classes, functions) are not modelled.
  \<open>JNum\<close> holds the integer-valued numbers that JavaScript prints in plain decimal
  notation, \<open>JNaN\<close> is the number NaN; fractions and infinities are not modelled.
  A value is a tree: two places of a value never share one array or object.
  Strings are lists of ASCII characters.
\<close>

datatype jsdate =
    InvalidDate
  | UTCDate (utcFullYear: int) (utcMonth: nat) (utcDate: nat) (utcHours: nat)
      (utcMinutes: nat) (utcSeconds: nat) (utcMilliseconds: nat)

datatype jsval =
    JUndefined
  | JNull
  | JBool bool
  | JNum int
  | JNaN
  | JStr string
  | JDate jsdate
  | JArr "jsval list"
  | JObj "(string \<times> jsval) list"
  | JStringObject string
  | JArguments "jsval list"
  | JTypedArray string "jsval list"

datatype js_error = TypeError | Error string

text \<open>
  What the adapter takes from outside its own file: \<open>SqlString.escape\<close> of
  lib/protocol/SqlString.js (called as \<open>escape(v, false, timezone)\<close>), the
  \<open>Date\<close> constructor and \<open>Date.prototype.toString\<close> of the JavaScript engine,
  the engine's conversion of a string to a number, the time value of a valid date
  (\<open>Date.prototype.valueOf\<close>, which needs the calendar), what a typed array of a
  class holds after a value was assigned to one of its elements and the string it
  converts to (both depend on the class), and \<open>tableEscaped\<close> of jugglingdb's
  BaseSQL. They are parameters of the model.
\<close>

record runtime =
  escape :: "jsval \<Rightarrow> string"
  newDate :: "jsval \<Rightarrow> jsdate"
  dateToString :: "jsdate \<Rightarrow> string"
  dateValue :: "jsdate \<Rightarrow> int"
  stringToNumber :: "string \<Rightarrow> jsval"
  tableEscaped :: "string \<Rightarrow> string"
  typedArrayStore :: "string \<Rightarrow> jsval \<Rightarrow> jsval"
  typedArrayToString :: "string \<Rightarrow> jsval list \<Rightarrow> string"

subsection \<open>Conversions of the language\<close>

definition digitChar :: "nat \<Rightarrow> char" where
  "digitChar n = ''0123456789'' ! (n mod 10)"

fun showNat :: "nat \<Rightarrow> string" where
  "showNat n = (if n < 10 then [digitChar n] else showNat (n div 10) @ [digitChar n])"

declare showNat.simps [simp del]

definition showInt :: "int \<Rightarrow> string" where
  "showInt i = (if i < 0 then CHR ''-'' # showNat (nat (- i)) else showNat (nat i))"

fun joinWith :: "string \<Rightarrow> string list \<Rightarrow> string" where
  "joinWith sep [] = []"
| "joinWith sep [x] = x"
| "joinWith sep (x # y # ys) = x @ sep @ joinWith sep (y # ys)"

text \<open>Truthiness, as \<open>if (v)\<close> and \<open>!v\<close> test it.\<close>

fun truthy :: "jsval \<Rightarrow> bool" where
  "truthy JUndefined = False"
| "truthy JNull = False"
| "truthy (JBool b) = b"
| "truthy (JNum n) = (n \<noteq> 0)"
| "truthy JNaN = False"
| "truthy (JStr s) = (s \<noteq> [])"
| "truthy (JDate d) = True"
| "truthy (JArr xs) = True"
| "truthy (JObj kvs) = True"
| "truthy (JStringObject s) = True"
| "truthy (JArguments xs) = True"
| "truthy (JTypedArray c xs) = True"

text \<open>
  The string a value becomes in a concatenation \<open>'' + v\<close>; \<open>Array.prototype.join\<close>
  renders null and undefined elements as the empty string.
\<close>

fun toStr :: "runtime \<Rightarrow> jsval \<Rightarrow> string" where
  "toStr E JUndefined = ''undefined''"
| "toStr E JNull = ''null''"
| "toStr E (JBool b) = (if b then ''true'' else ''false'')"
| "toStr E (JNum n) = showInt n"
| "toStr E JNaN = ''NaN''"
| "toStr E (JStr s) = s"
| "toStr E (JDate d) = dateToString E d"
| "toStr E (JArr xs) =
     joinWith '','' (map (\<lambda>x. if x = JUndefined \<or> x = JNull then [] else toStr E x) xs)"
| "toStr E (JObj kvs) = ''[object Object]''"
| "toStr E (JStringObject s) = s"
| "toStr E (JArguments xs) = ''[object Arguments]''"
| "toStr E (JTypedArray c xs) = typedArrayToString E c xs"

definition arrayJoin :: "runtime \<Rightarrow> string \<Rightarrow> jsval list \<Rightarrow> string" where
  "arrayJoin E sep xs =
     joinWith sep (map (\<lambda>x. if x = JUndefined \<or> x = JNull then [] else toStr E x) xs)"

text \<open>\<open>Number(v)\<close>.\<close>

fun toNumber :: "runtime \<Rightarrow> jsval \<Rightarrow> jsval" where
  "toNumber E JUndefined = JNaN"
| "toNumber E JNull = JNum 0"
| "toNumber E (JBool b) = JNum (if b then 1 else 0)"
| "toNumber E (JNum n) = JNum n"
| "toNumber E JNaN = JNaN"
| "toNumber E (JStr s) = stringToNumber E s"
| "toNumber E (JDate d) = (if d = InvalidDate then JNaN else JNum (dateValue E d))"
| "toNumber E (JArr xs) = stringToNumber E (toStr E (JArr xs))"
| "toNumber E (JObj kvs) = stringToNumber E (toStr E (JObj kvs))"
| "toNumber E (JStringObject s) = stringToNumber E s"
| "toNumber E (JArguments xs) = stringToNumber E (toStr E (JArguments xs))"
| "toNumber E (JTypedArray c xs) = stringToNumber E (toStr E (JTypedArray c xs))"

text \<open>
  \<open>v == n\<close> for a number \<open>n\<close>: null and undefined equal no number, a primitive is
  converted to a number, an object first to its string.
\<close>

fun looseEqNum :: "runtime \<Rightarrow> jsval \<Rightarrow> int \<Rightarrow> bool" where
  "looseEqNum E JUndefined n = False"
| "looseEqNum E JNull n = False"
| "looseEqNum E (JDate d) n = (stringToNumber E (dateToString E d) = JNum n)"
| "looseEqNum E v n = (toNumber E v = JNum n)"

text \<open>\<open>v[i]\<close> and \<open>v.length\<close>; both throw on null and undefined.\<close>

fun getIndex :: "jsval \<Rightarrow> nat \<Rightarrow> js_error + jsval" where
  "getIndex JUndefined i = Inl TypeError"
| "getIndex JNull i = Inl TypeError"
| "getIndex (JArr xs) i = Inr (if i < length xs then xs ! i else JUndefined)"
| "getIndex (JStr s) i = Inr (if i < length s then JStr [s ! i] else JUndefined)"
| "getIndex (JObj kvs) i =
     Inr (case map_of kvs (showNat i) of None \<Rightarrow> JUndefined | Some v \<Rightarrow> v)"
| "getIndex (JStringObject s) i = Inr (if i < length s then JStr [s ! i] else JUndefined)"
| "getIndex (JArguments xs) i = Inr (if i < length xs then xs ! i else JUndefined)"
| "getIndex (JTypedArray c xs) i = Inr (if i < length xs then xs ! i else JUndefined)"
| "getIndex v i = Inr JUndefined"

fun getLength :: "jsval \<Rightarrow> js_error + jsval" where
  "getLength JUndefined = Inl TypeError"
| "getLength JNull = Inl TypeError"
| "getLength (JArr xs) = Inr (JNum (int (length xs)))"
| "getLength (JStr s) = Inr (JNum (int (length s)))"
| "getLength (JObj kvs) =
     Inr (case map_of kvs ''length'' of None \<Rightarrow> JUndefined | Some v \<Rightarrow> v)"
| "getLength (JStringObject s) = Inr (JNum (int (length s)))"
| "getLength (JArguments xs) = Inr (JNum (int (length xs)))"
| "getLength (JTypedArray c xs) = Inr (JNum (int (length xs)))"
| "getLength v = Inr JUndefined"

text \<open>
  Writing back the element at \<open>i\<close> after a callee has changed it in place (only an
  array, an object literal or an arguments object holds an element that can
  change).
\<close>

fun putIndex :: "jsval \<Rightarrow> nat \<Rightarrow> jsval \<Rightarrow> jsval" where
  "putIndex (JArr xs) i v = JArr (if i < length xs then xs[i := v] else xs)"
| "putIndex (JObj kvs) i v =
     JObj (map (\<lambda>(k, w). if k = showNat i then (k, v) else (k, w)) kvs)"
| "putIndex (JArguments xs) i v = JArguments (if i < length xs then xs[i := v] else xs)"
| "putIndex u i v = u"

text \<open>
  The three tests of line 148, asked of a value that is neither null nor undefined:
  whether \<open>length\<close> is an own enumerable property, whether \<open>typeof\<close> is
  \<open>object\<close>, and whether \<open>length\<close> is a number. A value that passes the line is
  array-like.
\<close>

fun lengthIsEnumerable :: "jsval \<Rightarrow> bool" where
  "lengthIsEnumerable (JObj kvs) = (''length'' \<in> fst ` set kvs)"
| "lengthIsEnumerable v = False"

fun typeofObject :: "jsval \<Rightarrow> bool" where
  "typeofObject (JDate d) = True"
| "typeofObject (JArr xs) = True"
| "typeofObject (JObj kvs) = True"
| "typeofObject (JStringObject s) = True"
| "typeofObject (JArguments xs) = True"
| "typeofObject (JTypedArray c xs) = True"
| "typeofObject v = False"

definition hasNumericLength :: "jsval \<Rightarrow> bool" where
  "hasNumericLength v =
     (case getLength v of Inr (JNum n) \<Rightarrow> True | Inr JNaN \<Rightarrow> True | _ \<Rightarrow> False)"

definition arrayLike :: "jsval \<Rightarrow> bool" where
  "arrayLike v = (\<not> lengthIsEnumerable v \<and> typeofObject v \<and> hasNumericLength v)"

text \<open>
  The own enumerable properties, in \<open>Object.keys\<close> order, of a value whose
  \<open>constructor.name\<close> is \<open>Object\<close>: an object literal or an arguments object.
\<close>

fun objectEntries :: "jsval \<Rightarrow> (string \<times> jsval) list option" where
  "objectEntries (JObj kvs) = Some kvs"
| "objectEntries (JArguments xs) = Some (zip (map showNat [0 ..< length xs]) xs)"
| "objectEntries v = None"

section \<open>Model schema\<close>

text \<open>
  A property descriptor: \<open>type_name\<close> is \<open>p.type.name\<close>; \<open>limit\<close> is 0 when the
  descriptor gives none (\<open>p.limit || d\<close> takes the default for both);
  \<open>allowNull\<close> and \<open>null_opt\<close> (the source's \<open>p['null']\<close>) are \<open>None\<close> when
  absent, and only \<open>=== false\<close> is ever asked of them. In an index declaration an absent \<open>type\<close> or \<open>kind\<close> is the
  empty string, which is as falsy as \<open>undefined\<close>. A composite index of
  \<open>settings.indexes\<close> has its \<open>columns\<close> besides, one string that names them
  separated by commas.
\<close>

record index_decl =
  index_type :: string
  index_kind :: string

record composite_index = index_decl +
  columns :: string

record property =
  type_name :: string
  limit :: nat
  allowNull :: "bool option"
  null_opt :: "bool option"
  index :: "index_decl option"

text \<open>
  The adapter uses object literals as dictionaries (\<open>props[key]\<close>, \<open>ai[name]\<close>,
  \<open>m.properties[indexName]\<close>) and never asks whether a key is the object's own. A
  key that the object does not hold itself, and that names a member of
  \<open>Object.prototype\<close>, is therefore found all the same: the value is a function
  (\<open>Object.prototype\<close> itself for \<open>__proto__\<close>), which is truthy and has none of
  the fields a descriptor or an entry of \<open>ai\<close> has. What \<open>props[key]\<close> gives is
  \<open>None\<close> when it is falsy, a property descriptor, or such an inherited member.
\<close>

definition prototypeMembers :: "string list" where
  "prototypeMembers =
     [''constructor'', ''__defineGetter__'', ''__defineSetter__'', ''hasOwnProperty'',
      ''__lookupGetter__'', ''__lookupSetter__'', ''isPrototypeOf'', ''propertyIsEnumerable'',
      ''toString'', ''valueOf'', ''__proto__'', ''toLocaleString'']"

datatype descriptor = Property property | PrototypeMember

section \<open>Value codec\<close>

text \<open>dateToMysql (lines 124-135) with its inner fillZeros.\<close>

definition fillZeros :: "runtime \<Rightarrow> jsval \<Rightarrow> jsval" where
  "fillZeros E v =
     (case v of JNum n \<Rightarrow> if n < 10 then JStr (''0'' @ toStr E v) else v | _ \<Rightarrow> v)"

definition getUTC :: "(jsdate \<Rightarrow> int) \<Rightarrow> jsdate \<Rightarrow> jsval" where
  "getUTC f d = (if d = InvalidDate then JNaN else JNum (f d))"

definition plusOne :: "jsval \<Rightarrow> jsval" where
  "plusOne v = (case v of JNum n \<Rightarrow> JNum (n + 1) | _ \<Rightarrow> JNaN)"

definition dateToMysql :: "runtime \<Rightarrow> jsdate \<Rightarrow> string" where
  "dateToMysql E val =
     toStr E (getUTC utcFullYear val) @ ''-'' @
     toStr E (fillZeros E (plusOne (getUTC (\<lambda>d. int (utcMonth d)) val))) @ ''-'' @
     toStr E (fillZeros E (getUTC (\<lambda>d. int (utcDate d)) val)) @ '' '' @
     toStr E (fillZeros E (getUTC (\<lambda>d. int (utcHours d)) val)) @ '':'' @
     toStr E (fillZeros E (getUTC (\<lambda>d. int (utcMinutes d)) val)) @ '':'' @
     toStr E (fillZeros E (getUTC (\<lambda>d. int (utcSeconds d)) val))"

text \<open>
  toDatabase (lines 137-169). The function returns a value and may overwrite the
  elements of an \<open>inq\<close>/\<open>nin\<close> array in place (line 150), so the model returns the
  result together with \<open>val\<close> as the call leaves it. An arguments object has the
  \<open>constructor.name\<close> \<open>Object\<close> and its indices as keys, so its operator is \<open>0\<close>
  (or undefined when it is empty) and its operand the first element.
  \<open>toDatabaseTyped\<close> is the tail of the function (lines 158-168), reached with
  \<open>val\<close> or with the operand taken out of an operator object; under an inherited
  member of \<open>Object.prototype\<close> it throws, since \<open>prop.type\<close> is undefined at
  line 159. \<open>asDate\<close> is the date it
  renders (lines 162-164: a value without \<open>toUTCString\<close> goes through
  \<open>new Date\<close>). \<open>escapeElements\<close> is the loop of lines 149-151 with the \<open>join\<close> of
  line 152, on an array-like value: an array and a typed array have a \<open>join\<close>; a
  String object (whose elements cannot be written) and an arguments object have
  none, so that line 152 throws.
\<close>

fun escapeElements :: "runtime \<Rightarrow> jsval \<Rightarrow> js_error + (jsval \<times> jsval)" where
  "escapeElements E (JArr xs) =
     (let ys = map (\<lambda>x. JStr (escape E x)) xs
      in Inr (JStr (arrayJoin E '','' ys), JArr ys))"
| "escapeElements E (JTypedArray c xs) =
     (let ys = map (\<lambda>x. typedArrayStore E c (JStr (escape E x))) xs
      in Inr (JStr (arrayJoin E '','' ys), JTypedArray c ys))"
| "escapeElements E v = Inl TypeError"

definition asDate :: "runtime \<Rightarrow> jsval \<Rightarrow> jsdate" where
  "asDate E val = (case val of JDate d \<Rightarrow> d | _ \<Rightarrow> newDate E val)"

definition toDatabaseTyped :: "runtime \<Rightarrow> descriptor option \<Rightarrow> jsval \<Rightarrow> js_error + jsval" where
  "toDatabaseTyped E prop val =
     (case prop of
        None \<Rightarrow> Inr val
      | Some PrototypeMember \<Rightarrow> Inl TypeError
      | Some (Property p) \<Rightarrow>
          if type_name p = ''Number'' then Inr (toNumber E val)
          else if type_name p = ''Date'' then
            (if \<not> truthy val then Inr (JStr ''NULL'')
             else Inr (JStr (''\"'' @ dateToMysql E (asDate E val) @ ''\"'')))
          else if type_name p = ''Boolean'' then Inr (JNum (if truthy val then 1 else 0))
          else if val = JNull \<or> val = JUndefined then Inl TypeError
          else Inr (JStr (escape E (JStr (toStr E val)))))"

lemma size_map_of_le:
  "map_of kvs k = Some v \<Longrightarrow> size v \<le> size_list (size_prod (\<lambda>_. 0) size) kvs"
  by (induction kvs) (auto split: if_splits)

lemma size_nth_le: "i < length xs \<Longrightarrow> size (xs ! i) \<le> size_list size xs"
  by (induction xs arbitrary: i)
     (auto simp: nth_Cons split: nat.splits intro: le_SucI trans_le_add2)

lemma getIndex_size: "getIndex val i = Inr v \<Longrightarrow> size v \<le> size val"
proof (cases val)
  case (JStr s)
  assume "getIndex val i = Inr v"
  with JStr show ?thesis by (auto split: if_splits)
next
  case (JArr xs)
  assume "getIndex val i = Inr v"
  with JArr show ?thesis using size_nth_le [of i xs] by (auto split: if_splits)
next
  case (JObj kvs)
  assume "getIndex val i = Inr v"
  with JObj show ?thesis using size_map_of_le [of kvs "showNat i" v]
    by (auto split: option.splits)
next
  case (JArguments xs)
  assume "getIndex val i = Inr v"
  with JArguments show ?thesis using size_nth_le [of i xs] by (auto split: if_splits)
next
  case (JTypedArray c xs)
  assume "getIndex val i = Inr v"
  with JTypedArray show ?thesis using size_nth_le [of i xs] by (auto split: if_splits)
qed (auto split: if_splits)

function (sequential) toDatabase ::
  "runtime \<Rightarrow> descriptor option \<Rightarrow> jsval \<Rightarrow> js_error + (jsval \<times> jsval)" where
  "toDatabase E prop JNull = Inr (JStr ''NULL'', JNull)"
| "toDatabase E prop JUndefined = Inr (JUndefined, JUndefined)"
| "toDatabase E prop (JObj []) =
     (case toDatabaseTyped E prop JUndefined of
        Inl e \<Rightarrow> Inl e | Inr r \<Rightarrow> Inr (r, JObj []))"
| "toDatabase E prop (JObj ((operator, val) # others)) =
     (if operator = ''between'' then
        (case getIndex val 0 of
           Inl e \<Rightarrow> Inl e
         | Inr v0 \<Rightarrow>
            (case toDatabase E prop v0 of
               Inl e \<Rightarrow> Inl e
             | Inr (r0, v0') \<Rightarrow>
                (case getIndex val 1 of
                   Inl e \<Rightarrow> Inl e
                 | Inr v1 \<Rightarrow>
                    (case toDatabase E prop v1 of
                       Inl e \<Rightarrow> Inl e
                     | Inr (r1, v1') \<Rightarrow>
                         Inr (JStr (toStr E r0 @ '' AND '' @ toStr E r1),
                              JObj ((operator, putIndex (putIndex val 0 v0') 1 v1') # others))))))
      else if operator = ''inq'' \<or> operator = ''nin'' then
        (if val = JNull \<or> val = JUndefined then Inl TypeError
         else if arrayLike val then
           (case escapeElements E val of
              Inl e \<Rightarrow> Inl e
            | Inr (r, val') \<Rightarrow> Inr (r, JObj ((operator, val') # others)))
         else Inr (val, JObj ((operator, val) # others)))
      else
        (case toDatabaseTyped E prop val of
           Inl e \<Rightarrow> Inl e | Inr r \<Rightarrow> Inr (r, JObj ((operator, val) # others))))"
| "toDatabase E prop (JArguments xs) =
     (case toDatabaseTyped E prop (case xs of [] \<Rightarrow> JUndefined | x # rest \<Rightarrow> x) of
        Inl e \<Rightarrow> Inl e | Inr r \<Rightarrow> Inr (r, JArguments xs))"
| "toDatabase E prop val =
     (case toDatabaseTyped E prop val of Inl e \<Rightarrow> Inl e | Inr r \<Rightarrow> Inr (r, val))"
  by pat_completeness auto
termination
proof (relation "measure (\<lambda>(E, p, v). size v)", goal_cases)
  case 1
  show ?case by simp
next
  case (2 E p k val others v0)
  then show ?case using getIndex_size [of val 0 v0] by simp
next
  case (3 E p k val others v0 x r0 v0' v1)
  then show ?case using getIndex_size [of val 1 v1] by simp
qed

section \<open>Filter compiler\<close>

text \<open>
  The model whose table is queried: \<open>properties\<close> is \<open>_models[model].properties\<close>
  and \<open>indexes\<close> is \<open>_models[model].settings.indexes\<close>, both in \<open>Object.keys\<close>
  order. An entry bound to \<open>None\<close> is a name whose value is falsy (a disabled
  property or index). The names of an object are pairwise distinct.
  \<open>propertyOf\<close> is \<open>props[key]\<close>, with the members that \<open>props\<close> inherits.
\<close>

record model_def =
  properties :: "(string \<times> property option) list"
  indexes :: "(string \<times> composite_index option) list option"

definition propertyOf :: "model_def \<Rightarrow> string \<Rightarrow> descriptor option" where
  "propertyOf m name =
     (case map_of (properties m) name of
        Some (Some p) \<Rightarrow> Some (Property p)
      | Some None \<Rightarrow> None
      | None \<Rightarrow> if name \<in> set prototypeMembers then Some PrototypeMember else None)"

text \<open>\<open>key.replace(/\\./g, '`.`')\<close> between backticks (lines 194-196 and 240).\<close>

definition escapeName :: "string \<Rightarrow> string" where
  "escapeName name = ''`'' @ concat (map (\<lambda>c. if c = CHR ''.'' then ''`.`'' else [c]) name) @ ''`''"

text \<open>
  One round of the loop of buildWhere (lines 239-300): the clause pushed on \<open>cs\<close> for
  \<open>key\<close> and the condition as toDatabase leaves it. The numbers 0 and 1 pushed at
  line 253 are given as the strings that \<open>cs.join\<close> makes of them.
\<close>

definition condOperator :: "string option \<Rightarrow> string" where
  "condOperator condType =
     (if condType = Some ''gt'' then '' > ''
      else if condType = Some ''gte'' then '' >= ''
      else if condType = Some ''lt'' then '' < ''
      else if condType = Some ''lte'' then '' <= ''
      else if condType = Some ''between'' then '' BETWEEN ''
      else if condType = Some ''inq'' then '' IN ''
      else if condType = Some ''nin'' then '' NOT IN ''
      else if condType = Some ''neq'' then '' != ''
      else if condType = Some ''like'' then '' LIKE ''
      else [])"

definition whereCond ::
  "runtime \<Rightarrow> model_def \<Rightarrow> string \<Rightarrow> jsval \<Rightarrow> js_error + (string \<times> jsval)" where
  "whereCond E m key cond =
     (let keyEscaped = escapeName key in
      case toDatabase E (propertyOf m key) cond of
        Inl e \<Rightarrow> Inl e
      | Inr (val, cond') \<Rightarrow>
         (if cond = JNull \<or> cond = JUndefined then Inr (keyEscaped @ '' IS NULL'', cond')
          else case objectEntries cond' of
            Some kvs \<Rightarrow>
              (let condType = (case kvs of [] \<Rightarrow> None | (k, v) # others \<Rightarrow> Some k);
                   sqlCond = (if condType = Some ''custom'' then [] else keyEscaped)
               in if condType = Some ''inq'' \<or> condType = Some ''nin'' then
                    (case getLength val of
                       Inl e \<Rightarrow> Inl e
                     | Inr len \<Rightarrow>
                         if looseEqNum E len 0
                         then Inr (if condType = Some ''inq'' then ''0'' else ''1'', cond')
                         else Inr (sqlCond @ condOperator condType @ ''('' @ toStr E val @ '')'',
                                   cond'))
                  else if condType = Some ''custom'' then
                    Inr (sqlCond @ toStr E (case map_of kvs ''custom'' of
                                             None \<Rightarrow> JUndefined | Some v \<Rightarrow> v), cond')
                  else Inr (sqlCond @ condOperator condType @ toStr E val, cond'))
          | None \<Rightarrow> Inr (keyEscaped @ '' = '' @ toStr E val, cond')))"

fun whereConds ::
  "runtime \<Rightarrow> model_def \<Rightarrow> (string \<times> jsval) list
     \<Rightarrow> js_error + (string list \<times> (string \<times> jsval) list)" where
  "whereConds E m [] = Inr ([], [])"
| "whereConds E m ((key, cond) # conds) =
     (case whereCond E m key cond of
        Inl e \<Rightarrow> Inl e
      | Inr (c, cond') \<Rightarrow>
         (case whereConds E m conds of
            Inl e \<Rightarrow> Inl e
          | Inr (cs, conds') \<Rightarrow> Inr (c # cs, (key, cond') # conds')))"

definition buildWhere ::
  "runtime \<Rightarrow> model_def \<Rightarrow> (string \<times> jsval) list
     \<Rightarrow> js_error + (string \<times> (string \<times> jsval) list)" where
  "buildWhere E m conds =
     (case whereConds E m conds of
        Inl e \<Rightarrow> Inl e
      | Inr (cs, conds') \<Rightarrow>
          Inr (if cs = [] then [] else ''WHERE '' @ joinWith '' AND '' cs, conds'))"

text \<open>
  The whitespace class \<open>\\s\<close> of a regular expression, within ASCII, and
  \<open>String.prototype.split\<close> on \<open>/\\s+/\<close> (line 310) and on \<open>/,\\s*/\<close> (line 442).
\<close>

definition isSpace :: "char \<Rightarrow> bool" where
  "isSpace c = (c \<in> set [CHR 0x09, CHR 0x0A, CHR 0x0B, CHR 0x0C, CHR 0x0D, CHR 0x20])"

function splitSpaces :: "string \<Rightarrow> string list" where
  "splitSpaces s =
     (case dropWhile (\<lambda>c. \<not> isSpace c) s of
        [] \<Rightarrow> [s]
      | c # r \<Rightarrow> takeWhile (\<lambda>c. \<not> isSpace c) s # splitSpaces (dropWhile isSpace r))"
  by pat_completeness auto
termination
proof (relation "measure length", goal_cases)
  case 1
  show ?case by simp
next
  case (2 s c r)
  have "length (dropWhile isSpace r) \<le> length r"
    by (rule length_dropWhile_le)
  moreover have "length (dropWhile (\<lambda>c. \<not> isSpace c) s) \<le> length s"
    by (rule length_dropWhile_le)
  ultimately show ?case using 2 by simp
qed

declare splitSpaces.simps [simp del]

function splitCommas :: "string \<Rightarrow> string list" where
  "splitCommas s =
     (case dropWhile (\<lambda>c. c \<noteq> CHR '','') s of
        [] \<Rightarrow> [s]
      | c # r \<Rightarrow> takeWhile (\<lambda>c. c \<noteq> CHR '','') s # splitCommas (dropWhile isSpace r))"
  by pat_completeness auto
termination
proof (relation "measure length", goal_cases)
  case 1
  show ?case by simp
next
  case (2 s c r)
  have "length (dropWhile isSpace r) \<le> length r"
    by (rule length_dropWhile_le)
  moreover have "length (dropWhile (\<lambda>c. c \<noteq> CHR '','') s) \<le> length s"
    by (rule length_dropWhile_le)
  ultimately show ?case using 2 by simp
qed

declare splitCommas.simps [simp del]

text \<open>
  buildOrderBy (lines 307-314) and buildLimit (lines 316-318). \<open>orderItem\<close> is the
  function mapped over \<open>order\<close>: an element must have a \<open>split\<close>, so it is a string
  or a String object. \<open>order.map\<close> exists on an array and on a typed array, whose
  elements are numbers.
\<close>

definition orderItem :: "string \<Rightarrow> string" where
  "orderItem o1 =
     (let t = splitSpaces o1
      in if length t = 1 then ''`'' @ o1 @ ''`'' else ''`'' @ t ! 0 @ ''` '' @ t ! 1)"

fun orderItems :: "jsval list \<Rightarrow> js_error + string list" where
  "orderItems [] = Inr []"
| "orderItems (JStr o1 # os) =
     (case orderItems os of Inl e \<Rightarrow> Inl e | Inr rest \<Rightarrow> Inr (orderItem o1 # rest))"
| "orderItems (JStringObject o1 # os) =
     (case orderItems os of Inl e \<Rightarrow> Inl e | Inr rest \<Rightarrow> Inr (orderItem o1 # rest))"
| "orderItems (v # os) = Inl TypeError"

definition buildOrderBy :: "jsval \<Rightarrow> js_error + string" where
  "buildOrderBy order =
     (case (case order of
              JStr s \<Rightarrow> orderItems [JStr s]
            | JArr os \<Rightarrow> orderItems os
            | JTypedArray c xs \<Rightarrow> if xs = [] then Inr [] else Inl TypeError
            | _ \<Rightarrow> Inl TypeError) of
        Inl e \<Rightarrow> Inl e
      | Inr items \<Rightarrow> Inr (''ORDER BY '' @ joinWith '', '' items))"

definition buildLimit :: "runtime \<Rightarrow> jsval \<Rightarrow> jsval \<Rightarrow> string" where
  "buildLimit E lim offset =
     ''LIMIT '' @ (if truthy offset then toStr E offset @ '', '' @ toStr E lim
                   else toStr E lim)"

text \<open>
  The query filter. \<open>filter_where\<close> is \<open>None\<close> when \<open>filter.where\<close> is absent and an
  object otherwise, given as its conditions in \<open>Object.keys\<close> order; the code only
  iterates over its keys, which may be any names. The other fields are
  \<open>JUndefined\<close> when absent.
\<close>

record query_filter =
  filter_where :: "(string \<times> jsval) list option"
  filter_order :: jsval
  filter_limit :: jsval
  filter_skip :: jsval
  filter_include :: jsval

text \<open>
  The statement that \<open>all\<close> builds (lines 200-218), with the filter as the
  compilation leaves it.
\<close>

definition allWhere ::
  "runtime \<Rightarrow> model_def \<Rightarrow> string \<Rightarrow> query_filter
     \<Rightarrow> js_error + (string \<times> query_filter)" where
  "allWhere E m sql f =
     (case filter_where f of
        None \<Rightarrow> Inr (sql, f)
      | Some conds \<Rightarrow>
         (case buildWhere E m conds of
            Inl e \<Rightarrow> Inl e
          | Inr (w, conds') \<Rightarrow> Inr (sql @ '' '' @ w, f\<lparr>filter_where := Some conds'\<rparr>)))"

definition allOrder :: "string \<Rightarrow> query_filter \<Rightarrow> js_error + string" where
  "allOrder sql f =
     (if truthy (filter_order f) then
        (case buildOrderBy (filter_order f) of
           Inl e \<Rightarrow> Inl e | Inr ob \<Rightarrow> Inr (sql @ '' '' @ ob))
      else Inr sql)"

definition allLimit :: "runtime \<Rightarrow> string \<Rightarrow> query_filter \<Rightarrow> string" where
  "allLimit E sql f =
     (if truthy (filter_limit f) then
        sql @ '' '' @ buildLimit E (filter_limit f)
                        (if truthy (filter_skip f) then filter_skip f else JNum 0)
      else sql)"

definition allSql ::
  "runtime \<Rightarrow> model_def \<Rightarrow> string \<Rightarrow> query_filter option
     \<Rightarrow> js_error + (string \<times> query_filter option)" where
  "allSql E m model flt =
     (let sql = ''SELECT * FROM '' @ tableEscaped E model in
      case flt of
        None \<Rightarrow> Inr (sql, None)
      | Some f \<Rightarrow>
         (case allWhere E m sql f of
            Inl e \<Rightarrow> Inl e
          | Inr (sql1, f') \<Rightarrow>
             (case allOrder sql1 f' of
                Inl e \<Rightarrow> Inl e
              | Inr sql2 \<Rightarrow> Inr (allLimit E sql2 f', Some f'))))"

section \<open>Executor\<close>

text \<open>
  query (lines 43-59). A callback argument is a function or some other value.
  query itself makes one call, \<open>this.pool.getConnection\<close>, with a handler, and
  returns normally; it never looks at \<open>callback\<close>. The pool belongs to the mysql
  driver, outside the file: the model takes it to call the handler after
  \<open>getConnection\<close> has returned, from the event loop, as a pool does that has to
  obtain a connection first. It calls the handler with \<open>poolErr\<close>: the handler
  (\<open>onConnection\<close>, lines 45-57) then throws, or calls \<open>callback\<close>, or sends the
  statement with a second handler (\<open>onResult\<close>, lines 50-52), which the connection
  calls with \<open>err\<close> and \<open>data\<close> (\<open>None\<close> for \<open>undefined\<close>) and which logs, ends the
  connection and calls \<open>callback\<close>. \<open>log\<close> tells whether the \<open>this.log\<close> that the
  handler reads is truthy.
\<close>

datatype ('d, 'r) callback = Function "jsval \<Rightarrow> 'd option \<Rightarrow> 'r" | NotFunction jsval

datatype event = ConnectionQuery string | Log string | ConnectionEnd

definition onResult ::
  "bool \<Rightarrow> string \<Rightarrow> (jsval \<Rightarrow> 'd option \<Rightarrow> 'r) \<Rightarrow> jsval \<Rightarrow> 'd option \<Rightarrow> event list \<times> 'r" where
  "onResult log sql f e d = ((if log then [Log sql] else []) @ [ConnectionEnd], f e d)"

datatype ('d, 'r) pool_outcome =
    Sent string "jsval \<Rightarrow> 'd option \<Rightarrow> event list \<times> 'r"
  | Called 'r

definition onConnection ::
  "bool \<Rightarrow> string \<Rightarrow> ('d, 'r) callback \<Rightarrow> jsval \<Rightarrow> js_error + ('d, 'r) pool_outcome" where
  "onConnection log sql callback pErr =
     (if \<not> truthy pErr then
        (case callback of
           NotFunction v \<Rightarrow> Inl (Error ''callback should be a function'')
         | Function f \<Rightarrow> Inr (Sent sql (onResult log sql f)))
      else
        (case callback of
           NotFunction v \<Rightarrow> Inl TypeError
         | Function f \<Rightarrow> Inr (Called (f pErr None))))"

datatype ('d, 'r) pending = GetConnection "jsval \<Rightarrow> js_error + ('d, 'r) pool_outcome"

definition query ::
  "bool \<Rightarrow> string \<Rightarrow> ('d, 'r) callback \<Rightarrow> js_error + ('d, 'r) pending" where
  "query log sql callback = Inr (GetConnection (onConnection log sql callback))"

text \<open>
  The pool and the connection answer from outside. A reply holds what
  \<open>getConnection\<close> passes to its handler and what \<open>connection.query\<close> passes to
  its own when a statement is sent. \<open>replyTo\<close> plays the reply to a pending call:
  the result is the exception thrown inside the first handler, to the event loop,
  or the calls made on the connection and the logger with what the callback
  returned.
\<close>

record 'd db_reply =
  poolErr :: jsval
  err :: jsval
  data :: "'d option"

definition replyTo :: "('d, 'r) pending \<Rightarrow> 'd db_reply \<Rightarrow> js_error + (event list \<times> 'r)" where
  "replyTo p reply =
     (case p of
        GetConnection h \<Rightarrow>
          (case h (poolErr reply) of
             Inl e \<Rightarrow> Inl e
           | Inr (Called r) \<Rightarrow> Inr ([], r)
           | Inr (Sent sql k) \<Rightarrow>
               (case k (err reply) (data reply) of
                  (events, r) \<Rightarrow> Inr (ConnectionQuery sql # events, r))))"

subsection \<open>Rows back from the database\<close>

text \<open>
  \<open>s.replace(/GMT.*$/, 'GMT')\<close>: the leftmost \<open>GMT\<close> that no line terminator
  follows, and everything after it, becomes \<open>GMT\<close>.
\<close>

fun replaceGMT :: "string \<Rightarrow> string" where
  "replaceGMT [] = []"
| "replaceGMT (c # cs) =
     (if take 3 (c # cs) = ''GMT''
         \<and> list_all (\<lambda>x. x \<noteq> CHR 0x0A \<and> x \<noteq> CHR 0x0D) (drop 3 (c # cs))
      then ''GMT'' else c # replaceGMT cs)"

text \<open>
  fromDatabase (lines 171-192), for a row object: \<open>fromDatabaseValue\<close> is one round
  of its loop, the value written back at \<open>key\<close>. Under a key that names an
  inherited member of \<open>Object.prototype\<close> line 180 throws.
\<close>

definition fromDatabaseValue :: "runtime \<Rightarrow> model_def \<Rightarrow> string \<Rightarrow> jsval \<Rightarrow> js_error + jsval" where
  "fromDatabaseValue E m key val =
     (if val = JUndefined \<or> val = JNull then Inr val
      else case propertyOf m key of
        None \<Rightarrow> Inr val
      | Some PrototypeMember \<Rightarrow> Inl TypeError
      | Some (Property p) \<Rightarrow>
          if type_name p = ''Date''
          then Inr (JDate (newDate E (JStr (replaceGMT (toStr E val)))))
          else if type_name p = ''Boolean'' then Inr (JBool (looseEqNum E val 1))
          else Inr val)"

fun fromDatabase ::
  "runtime \<Rightarrow> model_def \<Rightarrow> (string \<times> jsval) list \<Rightarrow> js_error + (string \<times> jsval) list" where
  "fromDatabase E m [] = Inr []"
| "fromDatabase E m ((key, val) # row) =
     (case fromDatabaseValue E m key val of
        Inl e \<Rightarrow> Inl e
      | Inr val' \<Rightarrow>
         (case fromDatabase E m row of
            Inl e \<Rightarrow> Inl e
          | Inr row' \<Rightarrow> Inr ((key, val') # row')))"

fun fromDatabaseRows ::
  "runtime \<Rightarrow> model_def \<Rightarrow> (string \<times> jsval) list list
     \<Rightarrow> js_error + (string \<times> jsval) list list" where
  "fromDatabaseRows E m [] = Inr []"
| "fromDatabaseRows E m (obj # rows) =
     (case fromDatabase E m obj of
        Inl e \<Rightarrow> Inl e
      | Inr obj' \<Rightarrow>
         (case fromDatabaseRows E m rows of
            Inl e \<Rightarrow> Inl e
          | Inr objs \<Rightarrow> Inr (obj' # objs)))"

text \<open>
  The callback that \<open>all\<close> hands to \<open>query\<close> (lines 220-233): it ends in a call of
  the caller's callback or of the model's \<open>include\<close>.
\<close>

datatype all_done =
    Callback jsval "(string \<times> jsval) list list"
  | Include "(string \<times> jsval) list list" jsval

definition allCallback ::
  "runtime \<Rightarrow> model_def \<Rightarrow> query_filter option \<Rightarrow> jsval
     \<Rightarrow> (string \<times> jsval) list list option \<Rightarrow> js_error + all_done" where
  "allCallback E m flt e d =
     (if truthy e then Inr (Callback e [])
      else case d of
        None \<Rightarrow> Inl TypeError
      | Some rows \<Rightarrow>
         (case fromDatabaseRows E m rows of
            Inl e \<Rightarrow> Inl e
          | Inr objs \<Rightarrow>
             (case flt of
                None \<Rightarrow> Inr (Callback JNull objs)
              | Some f \<Rightarrow>
                  if truthy (filter_include f) then Inr (Include objs (filter_include f))
                  else Inr (Callback JNull objs))))"

text \<open>
  all (lines 198-320): the statement it returns, the filter as it leaves it, and the
  call it has pending at the pool when it returns.
\<close>

definition all ::
  "runtime \<Rightarrow> bool \<Rightarrow> model_def \<Rightarrow> string \<Rightarrow> query_filter option
     \<Rightarrow> js_error + (string \<times> query_filter option
                     \<times> ((string \<times> jsval) list list, js_error + all_done) pending)" where
  "all E log m model flt =
     (case allSql E m model flt of
        Inl e \<Rightarrow> Inl e
      | Inr (sql, flt') \<Rightarrow>
         (case query log sql (Function (allCallback E m flt')) of
            Inl e \<Rightarrow> Inl e
          | Inr h \<Rightarrow> Inr (sql, flt', h)))"

section \<open>Schema differ\<close>

text \<open>Rows of \<open>SHOW FIELDS\<close> and of \<open>SHOW INDEXES\<close>, with the columns the adapter reads.\<close>

record field_row =
  Field :: string
  Type :: string
  Null :: string

record index_row =
  Key_name :: string
  Seq_in_index :: int
  Column_name :: string

text \<open>datatype (lines 590-615) and propertySettingsSQL (lines 584-588).\<close>

definition datatype_sql :: "property \<Rightarrow> string" where
  "datatype_sql p =
     (if type_name p = ''Text'' then ''TEXT''
      else if type_name p = ''Number''
        then ''INT('' @ showNat (if limit p = 0 then 11 else limit p) @ '')''
      else if type_name p = ''Date'' then ''DATETIME''
      else if type_name p = ''Boolean'' then ''TINYINT(1)''
      else if type_name p = ''Point'' then ''POINT''
      else ''VARCHAR('' @ showNat (if limit p = 0 then 255 else limit p) @ '')'')"

definition notNull :: "property \<Rightarrow> bool" where
  "notNull p = (allowNull p = Some False \<or> null_opt p = Some False)"

definition propertySettingsSQL :: "property \<Rightarrow> string" where
  "propertySettingsSQL p = datatype_sql p @ '' '' @ (if notNull p then ''NOT NULL'' else ''NULL'')"

text \<open>\<open>String.prototype.toUpperCase\<close>, within ASCII.\<close>

definition toUpperCase :: "string \<Rightarrow> string" where
  "toUpperCase s =
     map (\<lambda>c. case map_of (zip ''abcdefghijklmnopqrstuvwxyz'' ''ABCDEFGHIJKLMNOPQRSTUVWXYZ'') c of
                 None \<Rightarrow> c | Some u \<Rightarrow> u) s"

text \<open>
  changed (lines 516-521) and actualize (lines 509-514). Where the code reads a
  field of what \<open>m.properties[name]\<close> gives, an inherited member of
  \<open>Object.prototype\<close> has no \<open>type\<close>, so that \<open>datatype\<close> throws on it, as it does
  on undefined.
\<close>

definition changed :: "property \<Rightarrow> field_row \<Rightarrow> bool" where
  "changed newSettings oldSettings =
     (if Null oldSettings = ''YES'' \<and> notNull newSettings then True
      else if Null oldSettings = ''NO'' \<and> \<not> notNull newSettings then True
      else if toUpperCase (Type oldSettings) \<noteq> datatype_sql newSettings then True
      else False)"

definition actualize :: "model_def \<Rightarrow> string \<Rightarrow> field_row \<Rightarrow> js_error + string list" where
  "actualize m propName oldSettings =
     (case propertyOf m propName of
        None \<Rightarrow> Inr []
      | Some PrototypeMember \<Rightarrow> Inl TypeError
      | Some (Property newSettings) \<Rightarrow>
          Inr (if changed newSettings oldSettings
               then [''CHANGE COLUMN `'' @ propName @ ''` `'' @ propName @ ''` ''
                       @ propertySettingsSQL newSettings]
               else []))"

text \<open>
  A \<open>forEach\<close> whose rounds push fragments on \<open>sql\<close>: the fragments in order, or the
  exception of the first round that throws.
\<close>

fun forEachPush :: "('a \<Rightarrow> js_error + string list) \<Rightarrow> 'a list \<Rightarrow> js_error + string list" where
  "forEachPush f [] = Inr []"
| "forEachPush f (x # xs) =
     (case f x of
        Inl e \<Rightarrow> Inl e
      | Inr ys \<Rightarrow> (case forEachPush f xs of Inl e \<Rightarrow> Inl e | Inr zs \<Rightarrow> Inr (ys @ zs)))"

text \<open>
  \<open>Object.keys\<close> of an object whose properties were added in the order \<open>ks\<close>: the
  keys that are array indices come first, in ascending order, then the others as
  they were added.
\<close>

definition parseNat :: "string \<Rightarrow> nat" where
  "parseNat s = foldl (\<lambda>a c. 10 * a + (of_char c - 48)) 0 s"

definition isArrayIndex :: "string \<Rightarrow> bool" where
  "isArrayIndex s =
     (s \<noteq> [] \<and> list_all (\<lambda>c. c \<in> set ''0123456789'') s
      \<and> (s = ''0'' \<or> hd s \<noteq> CHR ''0'') \<and> parseNat s < 4294967295)"

definition objectKeys :: "string list \<Rightarrow> string list" where
  "objectKeys ks = sort_key parseNat (filter isArrayIndex ks) @ filter (\<lambda>k. \<not> isArrayIndex k) ks"

text \<open>
  \<open>propNames\<close> and \<open>indexNames\<close> (lines 375-380), and the lookup of a declared
  composite index.
\<close>

definition propNames :: "model_def \<Rightarrow> string list" where
  "propNames m = filter (\<lambda>name. propertyOf m name \<noteq> None) (map fst (properties m))"

definition compositeOf :: "model_def \<Rightarrow> string \<Rightarrow> composite_index option" where
  "compositeOf m name =
     (case indexes m of
        None \<Rightarrow> None
      | Some ixs \<Rightarrow> (case map_of ixs name of Some (Some i) \<Rightarrow> Some i | _ \<Rightarrow> None))"

definition indexNames :: "model_def \<Rightarrow> string list" where
  "indexNames m =
     (case indexes m of
        None \<Rightarrow> []
      | Some ixs \<Rightarrow> filter (\<lambda>name. compositeOf m name \<noteq> None) (map fst ixs))"

text \<open>
  The object \<open>ai\<close> (lines 382-396): for every name of a live index its first row
  and its columns, a sparse array written at \<open>Seq_in_index - 1\<close>. The entries stand
  in the order in which the names were added; \<open>addRow\<close> is one round of the loop.
  \<open>ai\<close> starts as \<open>{}\<close>: under a name that it inherits from \<open>Object.prototype\<close>,
  \<open>ai[name]\<close> is truthy at line 387, nothing is added, and line 393 throws since
  the member has no \<open>columns\<close>.
\<close>

type_synonym live_index = "index_row \<times> (int \<Rightarrow> string option)"

definition addRow ::
  "index_row \<Rightarrow> (string \<times> live_index) list \<Rightarrow> js_error + (string \<times> live_index) list" where
  "addRow i ai =
     (case map_of ai (Key_name i) of
        None \<Rightarrow>
          if Key_name i \<in> set prototypeMembers then Inl TypeError
          else Inr (ai @ [(Key_name i, (i, Map.empty(Seq_in_index i - 1 \<mapsto> Column_name i)))])
      | Some (info, cols) \<Rightarrow>
          Inr (map (\<lambda>(name, entry).
                      if name = Key_name i
                      then (name, (info, cols(Seq_in_index i - 1 \<mapsto> Column_name i)))
                      else (name, entry)) ai))"

fun groupIndexes ::
  "index_row list \<Rightarrow> (string \<times> live_index) list \<Rightarrow> js_error + (string \<times> live_index) list" where
  "groupIndexes [] ai = Inr ai"
| "groupIndexes (i # rows) ai =
     (case addRow i ai of Inl e \<Rightarrow> Inl e | Inr ai' \<Rightarrow> groupIndexes rows ai')"

text \<open>
  Change or add a field (lines 399-415), drop a column (lines 418-426). In the
  first loop \<open>propName\<close> ranges over \<open>propNames\<close>.
\<close>

definition findField :: "field_row list option \<Rightarrow> string \<Rightarrow> field_row option" where
  "findField actualFields propName =
     (case actualFields of
        None \<Rightarrow> None
      | Some fs \<Rightarrow> find (\<lambda>f. Field f = propName) (rev fs))"

definition changeOrAdd ::
  "model_def \<Rightarrow> field_row list option \<Rightarrow> string \<Rightarrow> js_error + string list" where
  "changeOrAdd m actualFields propName =
     (if propName = ''id'' then Inr []
      else case findField actualFields propName of
        Some found \<Rightarrow> actualize m propName found
      | None \<Rightarrow>
         (case propertyOf m propName of
            Some (Property p) \<Rightarrow>
              Inr [''ADD COLUMN `'' @ propName @ ''` '' @ propertySettingsSQL p]
          | _ \<Rightarrow> Inl TypeError))"

definition dropColumn :: "model_def \<Rightarrow> field_row \<Rightarrow> string list" where
  "dropColumn m f =
     (let notFound = (Field f \<notin> set (propNames m)) in
      if Field f = ''id'' then []
      else if notFound \<or> propertyOf m (Field f) = None
        then [''DROP COLUMN `'' @ Field f @ ''`'']
      else [])"

text \<open>
  One round of the loop that removes indexes (lines 429-451): the fragments it
  pushes and \<open>ai\<close> as it leaves it. \<open>indexMissing\<close> is the test
  \<open>m.properties[indexName] && !m.properties[indexName].index\<close> of lines 431 and
  435. Line 443 reads \<open>ai[indexName].columns\<close> and throws when \<open>ai\<close> holds no entry
  of its own under the name.
\<close>

definition indexMissing :: "descriptor option \<Rightarrow> bool" where
  "indexMissing d =
     (case d of None \<Rightarrow> False | Some PrototypeMember \<Rightarrow> True
              | Some (Property p) \<Rightarrow> index p = None)"

definition orderMatched :: "model_def \<Rightarrow> string \<Rightarrow> (int \<Rightarrow> string option) \<Rightarrow> bool" where
  "orderMatched m indexName cols =
     (case compositeOf m indexName of
        None \<Rightarrow> True
      | Some i \<Rightarrow>
          (let declared = splitCommas (columns i)
           in list_all (\<lambda>k. cols (int k) = Some (declared ! k)) [0 ..< length declared]))"

definition removeIndex ::
  "model_def \<Rightarrow> string \<Rightarrow> (string \<times> live_index) list
     \<Rightarrow> js_error + (string list \<times> (string \<times> live_index) list)" where
  "removeIndex m indexName ai =
     (if indexName = ''id'' \<or> indexName = ''PRIMARY'' then Inr ([], ai)
      else if (indexName \<notin> set (indexNames m) \<and> propertyOf m indexName = None)
              \<or> indexMissing (propertyOf m indexName)
        then Inr ([''DROP INDEX `'' @ indexName @ ''`''], ai)
      else if indexMissing (propertyOf m indexName) then Inr ([], ai)
      else if indexName \<notin> set (indexNames m) then Inr ([], ai)
      else case map_of ai indexName of
        None \<Rightarrow> Inl TypeError
      | Some (info, cols) \<Rightarrow>
          if \<not> orderMatched m indexName cols
          then Inr ([''DROP INDEX `'' @ indexName @ ''`''],
                    filter (\<lambda>(name, entry). name \<noteq> indexName) ai)
          else Inr ([], ai))"

fun removeIndexes ::
  "model_def \<Rightarrow> string list \<Rightarrow> (string \<times> live_index) list
     \<Rightarrow> js_error + (string list \<times> (string \<times> live_index) list)" where
  "removeIndexes m [] ai = Inr ([], ai)"
| "removeIndexes m (indexName # names) ai =
     (case removeIndex m indexName ai of
        Inl e \<Rightarrow> Inl e
      | Inr (sql, ai') \<Rightarrow>
          (case removeIndexes m names ai' of
             Inl e \<Rightarrow> Inl e
           | Inr (sqls, ai'') \<Rightarrow> Inr (sql @ sqls, ai'')))"

text \<open>
  Add a single-column index (lines 454-475; \<open>kind\<close> stays empty, its assignment
  is commented out at line 467) and a multi-column index (lines 478-496). The
  fragment pushed is a definition of its own, so that a theorem can name it.
  \<open>found\<close> is truthy exactly when \<open>ai\<close> holds an entry of its own under the name:
  an inherited member has no \<open>info\<close>. \<open>propName\<close> ranges over \<open>propNames\<close> and
  \<open>indexName\<close> over \<open>indexNames\<close>; on a name without a declaration line 455 and
  line 484 throw.
\<close>

definition singleIndexFragment :: "string \<Rightarrow> index_decl \<Rightarrow> string" where
  "singleIndexFragment propName i =
     (let type = (if index_type i \<noteq> [] then ''USING '' @ index_type i else []);
          kind = []
      in if kind \<noteq> [] \<and> type \<noteq> []
         then ''ADD '' @ kind @ '' INDEX `'' @ propName @ ''` (`'' @ propName @ ''`) '' @ type
         else ''ADD '' @ kind @ '' INDEX `'' @ propName @ ''` '' @ type @ '' (`'' @ propName
                @ ''`) '')"

definition addSingleIndex ::
  "model_def \<Rightarrow> (string \<times> live_index) list \<Rightarrow> string \<Rightarrow> js_error + string list" where
  "addSingleIndex m ai propName =
     (case propertyOf m propName of
        None \<Rightarrow> Inl TypeError
      | Some PrototypeMember \<Rightarrow> Inr []
      | Some (Property p) \<Rightarrow>
         (case index p of
            None \<Rightarrow> Inr []
          | Some i \<Rightarrow>
              Inr (if map_of ai propName = None then [singleIndexFragment propName i] else [])))"

definition multiIndexFragment :: "string \<Rightarrow> composite_index \<Rightarrow> string" where
  "multiIndexFragment indexName i =
     (let type = (if index_type i \<noteq> [] then ''USING '' @ index_type i else []);
          kind = index_kind i
      in if kind \<noteq> [] \<and> type \<noteq> []
         then ''ADD '' @ kind @ '' INDEX `'' @ indexName @ ''` ('' @ columns i @ '') '' @ type
         else ''ADD '' @ kind @ '' INDEX '' @ type @ '' `'' @ indexName @ ''` ('' @ columns i
                @ '')'')"

definition addMultiIndex ::
  "model_def \<Rightarrow> (string \<times> live_index) list \<Rightarrow> string \<Rightarrow> js_error + string list" where
  "addMultiIndex m ai indexName =
     (case compositeOf m indexName of
        None \<Rightarrow> Inl TypeError
      | Some i \<Rightarrow>
          Inr (if map_of ai indexName = None then [multiIndexFragment indexName i] else []))"

text \<open>
  The fragments collected in \<open>sql\<close> by alterTable (lines 372-496), or the exception
  of the first line that throws.
\<close>

definition alterTableSql ::
  "model_def \<Rightarrow> field_row list option \<Rightarrow> index_row list option \<Rightarrow> js_error + string list" where
  "alterTableSql m actualFields actualIndexes =
     (case (case actualIndexes of None \<Rightarrow> Inr [] | Some rows \<Rightarrow> groupIndexes rows []) of
        Inl e \<Rightarrow> Inl e
      | Inr ai \<Rightarrow>
     (case forEachPush (changeOrAdd m actualFields) (propNames m) of
        Inl e \<Rightarrow> Inl e
      | Inr changes \<Rightarrow>
     (let drops = (case actualFields of None \<Rightarrow> [] | Some fs \<Rightarrow> concat (map (dropColumn m) fs))
      in case removeIndexes m (objectKeys (map fst ai)) ai of
        Inl e \<Rightarrow> Inl e
      | Inr (removed, ai') \<Rightarrow>
     (case forEachPush (addSingleIndex m ai') (propNames m) of
        Inl e \<Rightarrow> Inl e
      | Inr singles \<Rightarrow>
     (case forEachPush (addMultiIndex m ai') (indexNames m) of
        Inl e \<Rightarrow> Inl e
      | Inr multis \<Rightarrow> Inr (changes @ drops @ removed @ singles @ multis))))))"

text \<open>
  alterTable (lines 372-507): with no fragment it calls \<open>done()\<close>; otherwise it
  sends the statement, or in check-only mode calls
  \<open>done(null, true, {statements, query})\<close>.
\<close>

datatype alter_outcome =
    Done
  | DoneNeedAlter "string list" string
  | RunQuery string

definition alterTable ::
  "runtime \<Rightarrow> model_def \<Rightarrow> string \<Rightarrow> field_row list option \<Rightarrow> index_row list option
     \<Rightarrow> bool \<Rightarrow> js_error + alter_outcome" where
  "alterTable E m model actualFields actualIndexes checkOnly =
     (case alterTableSql m actualFields actualIndexes of
        Inl e \<Rightarrow> Inl e
      | Inr sql \<Rightarrow>
          if sql \<noteq> [] then
            (let query = ''ALTER TABLE '' @ tableEscaped E model @ '' ''
                           @ joinWith [CHR '','', CHR 0x0A] sql
             in if checkOnly then Inr (DoneNeedAlter sql query) else Inr (RunQuery query))
          else Inr Done)"

section \<open>A runtime for concrete inputs\<close>

text \<open>
  Modelled from the spec: \<open>SqlString.escape\<close> (lib/protocol/SqlString.js) is not among
  the sources. The spec asks of it an escaped string literal in which quotes and
  backslashes are neutralised; \<open>specEscape\<close> puts a string between single quotes with
  a backslash before each quote and backslash, writes a number, a boolean and
  null as their SQL text, and turns an array into the list of its escaped elements
  separated by a comma and a space, a nested array between parentheses, as the
  driver does. What it makes of any other value (a Date, an object, NaN) is not
  modelled: \<open>NULL\<close> stands in, and no input used holds one. Every theorem below
  is stated for an arbitrary runtime;
  \<open>exampleRuntime\<close> only serves to evaluate the model at a concrete input. Its
  fields \<open>dateToString\<close>, \<open>dateValue\<close>, \<open>stringToNumber\<close>, \<open>typedArrayStore\<close> and
  \<open>typedArrayToString\<close> are placeholders: the inputs used print no date, read no
  string as a number, and hold no typed array.
\<close>

definition quoteString :: "string \<Rightarrow> string" where
  "quoteString s =
     [CHR 0x27]
     @ concat (map (\<lambda>c. if c = CHR 0x27 \<or> c = CHR 0x22 \<or> c = CHR 0x5C then [CHR 0x5C, c] else [c]) s)
     @ [CHR 0x27]"

fun isArray :: "jsval \<Rightarrow> bool" where
  "isArray (JArr xs) = True"
| "isArray v = False"

fun specEscape :: "jsval \<Rightarrow> string" where
  "specEscape (JStr s) = quoteString s"
| "specEscape (JNum n) = showInt n"
| "specEscape (JBool b) = (if b then ''true'' else ''false'')"
| "specEscape (JArr xs) =
     joinWith '', ''
       (map (\<lambda>v. if isArray v then ''('' @ specEscape v @ '')'' else specEscape v) xs)"
| "specEscape v = ''NULL''"

text \<open>
  \<open>new Date(t)\<close> for a number \<open>t\<close> of milliseconds since the epoch, as the language
  defines it: the day \<open>t div 86400000\<close> in the proleptic Gregorian calendar, counted
  in eras of 400 years that begin on a first of March, and the time within the
  day. The example runtime makes a date of a number and of a Date only; for any
  other value \<open>InvalidDate\<close> stands in.
\<close>

definition dateOfTime :: "int \<Rightarrow> jsdate" where
  "dateOfTime t =
     (if t < - 8640000000000000 \<or> 8640000000000000 < t then InvalidDate
      else
        (let days = t div 86400000;
             msInDay = t mod 86400000;
             z = days + 719468;
             era = z div 146097;
             doe = z mod 146097;
             yoe = (doe - doe div 1460 + doe div 36524 - doe div 146096) div 365;
             doy = doe - (365 * yoe + yoe div 4 - yoe div 100);
             mp = (5 * doy + 2) div 153;
             d = doy - (153 * mp + 2) div 5 + 1;
             mo = (if mp < 10 then mp + 3 else mp - 9);
             y = yoe + era * 400 + (if mo \<le> 2 then 1 else 0)
         in UTCDate y (nat (mo - 1)) (nat d) (nat (msInDay div 3600000))
              (nat (msInDay div 60000 mod 60)) (nat (msInDay div 1000 mod 60))
              (nat (msInDay mod 1000))))"

definition exampleRuntime :: runtime where
  "exampleRuntime =
     \<lparr>escape = specEscape,
      newDate = (\<lambda>v. case v of JNum t \<Rightarrow> dateOfTime t | JDate d \<Rightarrow> d | _ \<Rightarrow> InvalidDate),
      dateToString = (\<lambda>d. ''Invalid Date''),
      dateValue = (\<lambda>d. 0),
      stringToNumber = (\<lambda>s. JNaN),
      tableEscaped = escapeName,
      typedArrayStore = (\<lambda>c v. JNum 0),
      typedArrayToString = (\<lambda>c xs. [])\<rparr>"

text \<open>
  A plain value: neither null nor undefined nor an operator object, which is an
  object whose \<open>constructor.name\<close> is \<open>Object\<close>. A model with a Number, a String and
  a Date property serves as the concrete input of the filter compiler.
\<close>

fun plainValue :: "jsval \<Rightarrow> bool" where
  "plainValue JNull = False"
| "plainValue JUndefined = False"
| "plainValue (JObj kvs) = False"
| "plainValue (JArguments xs) = False"
| "plainValue v = True"

definition exampleModel :: model_def where
  "exampleModel =
     \<lparr>properties =
        [(''age'', Some \<lparr>type_name = ''Number'', limit = 0, allowNull = None,
                          null_opt = None, index = None\<rparr>),
         (''name'', Some \<lparr>type_name = ''String'', limit = 0, allowNull = None,
                           null_opt = None, index = None\<rparr>),
         (''born'', Some \<lparr>type_name = ''Date'', limit = 0, allowNull = None,
                           null_opt = None, index = None\<rparr>)],
      indexes = None\<rparr>"

text \<open>
  \<open>twoDigits\<close> is the zero-padded two-digit decimal numeral of a number below 100,
  as the spec words the date format. \<open>exampleFilter\<close> is a filter whose only
  condition is \<open>{id: {inq: xs}}\<close>.
\<close>

definition twoDigits :: "nat \<Rightarrow> string" where
  "twoDigits n = [digitChar (n div 10), digitChar n]"

definition exampleFilter :: "jsval list \<Rightarrow> query_filter" where
  "exampleFilter xs =
     \<lparr>filter_where = Some [(''id'', JObj [(''inq'', JArr xs)])],
      filter_order = JUndefined, filter_limit = JUndefined, filter_skip = JUndefined,
      filter_include = JUndefined\<rparr>"

text \<open>
  The column that the rows of \<open>SHOW INDEXES\<close> give the index \<open>name\<close> at position
  \<open>k\<close> (counted from 0): the \<open>Column_name\<close> of the last row of that name whose
  \<open>Seq_in_index\<close> is \<open>k + 1\<close>. \<open>colsOf\<close> reads the same out of the object \<open>ai\<close>.
\<close>

definition liveColumnAt :: "index_row list \<Rightarrow> string \<Rightarrow> nat \<Rightarrow> string option" where
  "liveColumnAt rows name k =
     map_option Column_name
       (find (\<lambda>r. Key_name r = name \<and> Seq_in_index r = int k + 1) (rev rows))"

definition colsOf :: "(string \<times> live_index) list \<Rightarrow> string \<Rightarrow> int \<Rightarrow> string option" where
  "colsOf ai n j = (case map_of ai n of None \<Rightarrow> None | Some (info, cols) \<Rightarrow> cols j)"

text \<open>
  A table for the schema differ: the model has a String property \<open>label\<close> without an
  index, two Number properties \<open>a\<close> and \<open>b\<close>, and one composite index \<open>name\<close>
  declared on \<open>a, b\<close>. The live table has the columns of the model, and besides
  the primary key an index \<open>name\<close> on the columns \<open>cols\<close>, in this order (none when
  \<open>cols\<close> is empty).
\<close>

definition compositeModel :: "string \<Rightarrow> model_def" where
  "compositeModel name =
     \<lparr>properties =
        [(''label'', Some \<lparr>type_name = ''String'', limit = 0, allowNull = None,
                            null_opt = None, index = None\<rparr>),
         (''a'', Some \<lparr>type_name = ''Number'', limit = 0, allowNull = None,
                        null_opt = None, index = None\<rparr>),
         (''b'', Some \<lparr>type_name = ''Number'', limit = 0, allowNull = None,
                        null_opt = None, index = None\<rparr>)],
      indexes = Some [(name, Some \<lparr>index_type = [], index_kind = [], columns = ''a, b''\<rparr>)]\<rparr>"

definition liveFields :: "field_row list" where
  "liveFields =
     [\<lparr>Field = ''id'', Type = ''int(11)'', Null = ''NO''\<rparr>,
      \<lparr>Field = ''label'', Type = ''varchar(255)'', Null = ''YES''\<rparr>,
      \<lparr>Field = ''a'', Type = ''int(11)'', Null = ''YES''\<rparr>,
      \<lparr>Field = ''b'', Type = ''int(11)'', Null = ''YES''\<rparr>]"

definition liveIndexes :: "string \<Rightarrow> string list \<Rightarrow> index_row list" where
  "liveIndexes name cols =
     \<lparr>Key_name = ''PRIMARY'', Seq_in_index = 1, Column_name = ''id''\<rparr>
     # map (\<lambda>(k, c). \<lparr>Key_name = name, Seq_in_index = int k + 1, Column_name = c\<rparr>)
         (zip [0 ..< length cols] cols)"

section \<open>Properties of the value codec and the filter compiler\<close>

lemma showNat_digit [simp]: "n < 10 \<Longrightarrow> showNat n = [digitChar n]"
  by (simp add: showNat.simps)

lemma exampleModel_properties [simp]:
  "propertyOf exampleModel ''age'' =
     Some (Property \<lparr>type_name = ''Number'', limit = 0, allowNull = None, null_opt = None,
                      index = None\<rparr>)"
  "propertyOf exampleModel ''name'' =
     Some (Property \<lparr>type_name = ''String'', limit = 0, allowNull = None, null_opt = None,
                      index = None\<rparr>)"
  "propertyOf exampleModel ''born'' =
     Some (Property \<lparr>type_name = ''Date'', limit = 0, allowNull = None, null_opt = None,
                      index = None\<rparr>)"
  "propertyOf exampleModel ''id'' = None"
  "propertyOf exampleModel ''constructor'' = Some PrototypeMember"
  by (simp_all add: propertyOf_def exampleModel_def prototypeMembers_def)

lemma arrayLike_simps [simp]:
  "arrayLike (JArr xs)" "arrayLike (JStringObject s)" "arrayLike (JArguments xs)"
  "arrayLike (JTypedArray c xs)"
  "\<not> arrayLike (JBool b)" "\<not> arrayLike (JNum n)" "\<not> arrayLike JNaN" "\<not> arrayLike (JStr s)"
  "\<not> arrayLike (JDate d)" "\<not> arrayLike (JObj kvs)"
  by (auto simp: arrayLike_def hasNumericLength_def split: option.splits
        dest: map_of_SomeD intro: rev_image_eqI)

lemma toDatabase_plain:
  "plainValue v \<Longrightarrow> toDatabase E prop v =
     (case toDatabaseTyped E prop v of Inl e \<Rightarrow> Inl e | Inr r \<Rightarrow> Inr (r, v))"
  by (cases v) (simp_all split: sum.splits)

lemma toDatabaseTyped_plain:
  "plainValue v \<Longrightarrow> prop \<noteq> Some PrototypeMember \<Longrightarrow> \<exists>r. toDatabaseTyped E prop v = Inr r"
  by (cases v) (auto simp: toDatabaseTyped_def split: option.splits descriptor.splits)

lemma propertyOf_own:
  "map_of (properties m) f \<noteq> None \<or> f \<notin> set prototypeMembers
     \<Longrightarrow> propertyOf m f \<noteq> Some PrototypeMember"
  by (auto simp: propertyOf_def split: option.splits)






lemma whereConds_append:
  "whereConds E m (xs @ ys) =
     (case whereConds E m xs of
        Inl e \<Rightarrow> Inl e
      | Inr (cs, xs') \<Rightarrow>
         (case whereConds E m ys of
            Inl e \<Rightarrow> Inl e
          | Inr (ds, ys') \<Rightarrow> Inr (cs @ ds, xs' @ ys')))"
  by (induction xs) (auto split: sum.splits prod.splits)

lemma whereConds_rounds:
  "map (\<lambda>(k, c). whereCond E m k c) conds = map Inr rs \<Longrightarrow>
     whereConds E m conds = Inr (map fst rs, zip (map fst conds) (map snd rs))"
proof (induction conds arbitrary: rs)
  case Nil
  then show ?case by simp
next
  case (Cons kc conds)
  obtain k c where kc: "kc = (k, c)" by (cases kc)
  from Cons.prems obtain r rs' where rs: "rs = r # rs'"
    "whereCond E m k c = Inr r" "map (\<lambda>(k, c). whereCond E m k c) conds = map Inr rs'"
    by (cases rs) (auto simp: kc)
  obtain s c' where r: "r = (s, c')" by (cases r)
  show ?case using Cons.IH [OF rs(3)] rs(2) by (simp add: kc rs(1) r)
qed

lemma buildWhere_around:
  assumes "map (\<lambda>(k, c). whereCond E m k c) before = map Inr rs1"
      and "whereCond E m key cond = Inr (clause, cond')"
      and "map (\<lambda>(k, c). whereCond E m k c) after = map Inr rs2"
  shows "buildWhere E m (before @ (key, cond) # after) =
           Inr (''WHERE '' @ joinWith '' AND '' (map fst rs1 @ clause # map fst rs2),
                zip (map fst before) (map snd rs1) @ (key, cond')
                  # zip (map fst after) (map snd rs2))"
  using whereConds_rounds [OF assms(1)] whereConds_rounds [OF assms(3)] assms(2)
  by (simp add: buildWhere_def whereConds_append)




text \<open>
  C5. In a where filter whose other conditions compile, each to its clause, take a
  condition on the field \<open>f\<close>. For every \<open>f\<close>, null and undefined compile to the
  escaped name followed by \<open>IS NULL\<close>. For a plain value \<open>v\<close> and a name \<open>f\<close> that
  the model's properties hold themselves, or that names no member of
  \<open>Object.prototype\<close>, the codec encodes \<open>v\<close> as some \<open>r\<close>, the condition \<open>{gt: v}\<close>
  compiles to the escaped name, \<open>>\<close> and \<open>r\<close>, and the condition \<open>v\<close> itself to the
  escaped name, \<open>=\<close> and \<open>r\<close>. Under any other name (\<open>constructor\<close>, \<open>toString\<close>,
  ...) the code diverges from the claim: \<open>props[f]\<close> is an inherited function,
  and both conditions make the compiler throw a TypeError at line 159. The name is
  escaped by escapeName in each case.
\<close>

theorem buildWhere_null_gt_equals:
  assumes "map (\<lambda>(k, c). whereCond E m k c) before = map Inr rs1"
      and "map (\<lambda>(k, c). whereCond E m k c) after = map Inr rs2"
  shows
    "(cond = JNull \<or> cond = JUndefined \<longrightarrow>
        buildWhere E m (before @ (f, cond) # after) =
          Inr (''WHERE '' @ joinWith '' AND ''
                 (map fst rs1 @ (escapeName f @ '' IS NULL'') # map fst rs2),
               zip (map fst before) (map snd rs1) @ (f, cond)
                 # zip (map fst after) (map snd rs2)))
     \<and> (plainValue v \<and> (map_of (properties m) f \<noteq> None \<or> f \<notin> set prototypeMembers) \<longrightarrow>
         (\<exists>r. toDatabase E (propertyOf m f) v = Inr (r, v)
            \<and> buildWhere E m (before @ (f, JObj ((''gt'', v) # others)) # after) =
                Inr (''WHERE '' @ joinWith '' AND ''
                       (map fst rs1 @ (escapeName f @ '' > '' @ toStr E r) # map fst rs2),
                     zip (map fst before) (map snd rs1) @ (f, JObj ((''gt'', v) # others))
                       # zip (map fst after) (map snd rs2))
            \<and> buildWhere E m (before @ (f, v) # after) =
                Inr (''WHERE '' @ joinWith '' AND ''
                       (map fst rs1 @ (escapeName f @ '' = '' @ toStr E r) # map fst rs2),
                     zip (map fst before) (map snd rs1) @ (f, v)
                       # zip (map fst after) (map snd rs2))))
     \<and> (plainValue v \<and> map_of (properties m) f = None \<and> f \<in> set prototypeMembers \<longrightarrow>
          buildWhere E m (before @ (f, JObj ((''gt'', v) # others)) # after) = Inl TypeError
          \<and> buildWhere E m (before @ (f, v) # after) = Inl TypeError)"
proof (intro conjI impI)
  assume "cond = JNull \<or> cond = JUndefined"
  then have "whereCond E m f cond = Inr (escapeName f @ '' IS NULL'', cond)"
    by (auto simp: whereCond_def)
  from buildWhere_around [OF assms(1) this assms(2)]
  show "buildWhere E m (before @ (f, cond) # after) =
          Inr (''WHERE '' @ joinWith '' AND ''
                 (map fst rs1 @ (escapeName f @ '' IS NULL'') # map fst rs2),
               zip (map fst before) (map snd rs1) @ (f, cond)
                 # zip (map fst after) (map snd rs2))" .
next
  assume a: "plainValue v \<and> (map_of (properties m) f \<noteq> None \<or> f \<notin> set prototypeMembers)"
  then have p: "plainValue v" and own: "propertyOf m f \<noteq> Some PrototypeMember"
    using propertyOf_own [of m f] by simp_all
  then obtain r where r: "toDatabaseTyped E (propertyOf m f) v = Inr r"
    using toDatabaseTyped_plain by blast
  have 1: "toDatabase E (propertyOf m f) v = Inr (r, v)"
    using p r by (simp add: toDatabase_plain)
  have "whereCond E m f (JObj ((''gt'', v) # others))
             = Inr (escapeName f @ '' > '' @ toStr E r, JObj ((''gt'', v) # others))"
    using r by (simp add: whereCond_def condOperator_def)
  note 2 = buildWhere_around [OF assms(1) this assms(2)]
  have "whereCond E m f v = Inr (escapeName f @ '' = '' @ toStr E r, v)"
    using p 1 by (cases v) (simp_all add: whereCond_def)
  note 3 = buildWhere_around [OF assms(1) this assms(2)]
  from 1 2 3 show "\<exists>r. toDatabase E (propertyOf m f) v = Inr (r, v)
            \<and> buildWhere E m (before @ (f, JObj ((''gt'', v) # others)) # after) =
                Inr (''WHERE '' @ joinWith '' AND ''
                       (map fst rs1 @ (escapeName f @ '' > '' @ toStr E r) # map fst rs2),
                     zip (map fst before) (map snd rs1) @ (f, JObj ((''gt'', v) # others))
                       # zip (map fst after) (map snd rs2))
            \<and> buildWhere E m (before @ (f, v) # after) =
                Inr (''WHERE '' @ joinWith '' AND ''
                       (map fst rs1 @ (escapeName f @ '' = '' @ toStr E r) # map fst rs2),
                     zip (map fst before) (map snd rs1) @ (f, v)
                       # zip (map fst after) (map snd rs2))"
    by blast
next
  assume a: "plainValue v \<and> map_of (properties m) f = None \<and> f \<in> set prototypeMembers"
  then have pm: "propertyOf m f = Some PrototypeMember" by (simp add: propertyOf_def)
  have t: "toDatabaseTyped E (Some PrototypeMember) v = Inl TypeError"
    by (simp add: toDatabaseTyped_def)
  have b: "whereConds E m before = Inr (map fst rs1, zip (map fst before) (map snd rs1))"
    by (rule whereConds_rounds [OF assms(1)])
  have "whereCond E m f (JObj ((''gt'', v) # others)) = Inl TypeError"
    using t by (simp add: whereCond_def pm)
  then show "buildWhere E m (before @ (f, JObj ((''gt'', v) # others)) # after) = Inl TypeError"
    using b by (simp add: buildWhere_def whereConds_append)
  have "whereCond E m f v = Inl TypeError"
    using a t by (simp add: whereCond_def pm toDatabase_plain)
  then show "buildWhere E m (before @ (f, v) # after) = Inl TypeError"
    using b by (simp add: buildWhere_def whereConds_append)
qed

theorem buildWhere_null_gt_equals_witness:
  "buildWhere exampleRuntime exampleModel [(''id'', JNum 1), (''name'', JNull)]
     = Inr (''WHERE `id` = 1 AND `name` IS NULL'', [(''id'', JNum 1), (''name'', JNull)])
   \<and> plainValue (JNum 5)
   \<and> buildWhere exampleRuntime exampleModel
        [(''id'', JNum 1), (''age'', JObj [(''gt'', JNum 5)]), (''name'', JNull)]
     = Inr (''WHERE `id` = 1 AND `age` > 5 AND `name` IS NULL'',
            [(''id'', JNum 1), (''age'', JObj [(''gt'', JNum 5)]), (''name'', JNull)])
   \<and> buildWhere exampleRuntime exampleModel
        [(''id'', JNum 1), (''age'', JNum 5), (''name'', JNull)]
     = Inr (''WHERE `id` = 1 AND `age` = 5 AND `name` IS NULL'',
            [(''id'', JNum 1), (''age'', JNum 5), (''name'', JNull)])
   \<and> buildWhere exampleRuntime exampleModel [(''id'', JNum 1), (''toString'', JNum 5)]
     = Inl TypeError"
  using buildWhere_null_gt_equals
          [of exampleRuntime exampleModel "[(''id'', JNum 1)]" "[(''`id` = 1'', JNum 1)]"
              "[]" "[]" JNull "''name''" "JNum 5" "[]"]
        buildWhere_null_gt_equals
          [of exampleRuntime exampleModel "[(''id'', JNum 1)]" "[(''`id` = 1'', JNum 1)]"
              "[(''name'', JNull)]" "[(''`name` IS NULL'', JNull)]" JUndefined "''age''"
              "JNum 5" "[]"]
        buildWhere_null_gt_equals
          [of exampleRuntime exampleModel "[(''id'', JNum 1)]" "[(''`id` = 1'', JNum 1)]"
              "[]" "[]" JUndefined "''toString''" "JNum 5" "[]"]
  by (simp add: whereCond_def toDatabaseTyped_def escapeName_def showInt_def digitChar_def
        exampleModel_def prototypeMembers_def propertyOf_def)

text \<open>
  The failing input of C5: the filter \<open>{constructor: 5}\<close>, on a model that declares
  no property of that name.
\<close>

theorem buildWhere_throws_on_constructor_field:
  "map_of (properties exampleModel) ''constructor'' = None
   \<and> buildWhere exampleRuntime exampleModel [(''constructor'', JNum 5)] = Inl TypeError"
  by (simp add: buildWhere_def whereCond_def toDatabaseTyped_def exampleModel_def
        propertyOf_def prototypeMembers_def)

text \<open>
  C9. With no property descriptor, toDatabase returns a plain value as it is, and
  leaves it as it is.
\<close>

theorem toDatabase_without_descriptor:
  "plainValue v \<Longrightarrow> toDatabase E None v = Inr (v, v)"
  by (simp add: toDatabase_plain toDatabaseTyped_def)

theorem toDatabase_without_descriptor_witness:
  "plainValue (JStr ''a b'')
   \<and> toDatabase exampleRuntime None (JStr ''a b'') = Inr (JStr ''a b'', JStr ''a b'')"
  using toDatabase_without_descriptor [of "JStr ''a b''" exampleRuntime] by simp




text \<open>
  C4. The code overwrites the operand array of an \<open>inq\<close> condition while it
  compiles the filter: after \<open>all\<close> has built the statement for
  \<open>{where: {id: {inq: [1, 2]}}}\<close>, the caller's array holds the escaped strings
  \<open>'1'\<close> and \<open>'2'\<close>, and compiling the same filter object again escapes them a second
  time and yields another statement.
\<close>

theorem all_overwrites_inq_operand:
  "allSql exampleRuntime exampleModel ''User'' (Some (exampleFilter [JNum 1, JNum 2]))
     = Inr (''SELECT * FROM `User` WHERE `id` IN (1,2)'',
            Some (exampleFilter [JStr ''1'', JStr ''2'']))
   \<and> exampleFilter [JStr ''1'', JStr ''2''] \<noteq> exampleFilter [JNum 1, JNum 2]
   \<and> allSql exampleRuntime exampleModel ''User'' (Some (exampleFilter [JStr ''1'', JStr ''2'']))
     = Inr (''SELECT * FROM `User` WHERE `id` IN ('' @ quoteString ''1'' @ '','' @ quoteString ''2''
              @ '')'',
            Some (exampleFilter [JStr (quoteString ''1''), JStr (quoteString ''2'')]))"
  by (simp add: allSql_def allWhere_def allOrder_def allLimit_def buildWhere_def
        exampleFilter_def whereCond_def condOperator_def arrayJoin_def exampleRuntime_def
        escapeName_def showInt_def digitChar_def quoteString_def)

lemma fillZeros_twoDigits:
  assumes "n < 100"
  shows "toStr E (fillZeros E (JNum (int n))) = twoDigits n"
proof (cases "n < 10")
  case True
  then show ?thesis
    by (simp add: fillZeros_def showInt_def twoDigits_def digitChar_def)
next
  case False
  with assms have "n div 10 < 10" by simp
  with False show ?thesis
    by (simp add: fillZeros_def showInt_def twoDigits_def showNat.simps [of n])
qed

lemma length_showNat_4:
  assumes "1000 \<le> n" "n < 10000"
  shows "length (showNat n) = 4"
proof -
  have a: "\<not> n < 10" "\<not> n div 10 < 10" "\<not> n div 10 div 10 < 10"
    "n div 10 div 10 div 10 < 10"
    using assms by simp_all
  show ?thesis
    using a
    by (simp add: showNat.simps [of n] showNat.simps [of "n div 10"]
          showNat.simps [of "n div 10 div 10"])
qed

lemma length_showNat_pos: "0 < length (showNat n)"
  by (subst showNat.simps) simp

lemma length_showNat_eq_4: "(length (showNat n) = 4) = (1000 \<le> n \<and> n < 10000)"
proof -
  consider "n < 1000" | "1000 \<le> n" "n < 10000" | "10000 \<le> n" by linarith
  then show ?thesis
  proof cases
    case 1
    then have "length (showNat n) < 4"
      by (simp add: showNat.simps [of n] showNat.simps [of "n div 10"]
            showNat.simps [of "n div 10 div 10"])
    with 1 show ?thesis by simp
  next
    case 2
    then show ?thesis using length_showNat_4 [of n] by simp
  next
    case 3
    then have a: "\<not> n < 10" "\<not> n div 10 < 10" "\<not> n div 10 div 10 < 10"
      "\<not> n div 10 div 10 div 10 < 10"
      by simp_all
    have "4 < length (showNat n)"
      using a length_showNat_pos [of "n div 10 div 10 div 10 div 10"]
      by (simp add: showNat.simps [of n] showNat.simps [of "n div 10"]
            showNat.simps [of "n div 10 div 10"] showNat.simps [of "n div 10 div 10 div 10"])
    with 3 show ?thesis by simp
  qed
qed

lemma dateToMysql_valid:
  assumes "mo < 12" "d < 32" "h < 24" "mi < 60" "s < 60"
  shows "dateToMysql E (UTCDate y mo d h mi s ms) =
           showInt y @ ''-'' @ twoDigits (mo + 1) @ ''-'' @ twoDigits d @ '' ''
           @ twoDigits h @ '':'' @ twoDigits mi @ '':'' @ twoDigits s"
proof -
  have "mo + 1 < 100" "d < 100" "h < 100" "mi < 100" "s < 100" using assms by simp_all
  then show ?thesis
    using fillZeros_twoDigits [of "mo + 1" E] fillZeros_twoDigits [of d E]
      fillZeros_twoDigits [of h E] fillZeros_twoDigits [of mi E] fillZeros_twoDigits [of s E]
    by (simp add: dateToMysql_def getUTC_def plusOne_def add.commute)
qed

lemma dateOfTime_example: "dateOfTime 1614834367000 = UTCDate 2021 2 4 5 6 7 0"
  by code_simp

lemma newDate_example: "newDate exampleRuntime (JNum 1614834367000) = UTCDate 2021 2 4 5 6 7 0"
  by (simp add: exampleRuntime_def dateOfTime_example)

lemma showInt_2021: "showInt 2021 = ''2021''"
  by (simp add: showInt_def showNat.simps [of 2021] showNat.simps [of 202]
        showNat.simps [of 20] digitChar_def)

text \<open>
  C6, as amended. Under a property of type Date, null and every falsy value other
  than undefined (false, 0, NaN, the empty string) are encoded as the SQL null
  literal \<open>NULL\<close>, and undefined is returned as undefined (line 139). A Date whose
  UTC components are \<open>y, mo, d, h, mi, s\<close>, in the ranges of a valid date, is
  encoded as the double-quoted text \<open>y-MM-DD HH:MM:SS\<close> in which the month
  \<open>mo + 1\<close>, the day, the hours, the minutes and the seconds are zero-padded to
  two digits, and so is a truthy plain value that is no Date and of which
  \<open>new Date\<close> makes such a date. The year is not padded: it is written as its
  decimal numeral, which has four digits exactly from the year 1000 to the year
  9999.
\<close>

theorem toDatabase_date:
  "type_name p = ''Date'' \<Longrightarrow>
     (\<not> truthy v \<and> v \<noteq> JUndefined \<longrightarrow>
        toDatabase E (Some (Property p)) v = Inr (JStr ''NULL'', v))
   \<and> toDatabase E (Some (Property p)) JUndefined = Inr (JUndefined, JUndefined)
   \<and> (mo < 12 \<and> 1 \<le> d \<and> d < 32 \<and> h < 24 \<and> mi < 60 \<and> s < 60 \<longrightarrow>
        toDatabase E (Some (Property p)) (JDate (UTCDate y mo d h mi s ms)) =
          Inr (JStr (''\"'' @ showInt y @ ''-'' @ twoDigits (mo + 1) @ ''-'' @ twoDigits d @ '' ''
                     @ twoDigits h @ '':'' @ twoDigits mi @ '':'' @ twoDigits s @ ''\"''),
               JDate (UTCDate y mo d h mi s ms))
        \<and> (truthy v \<and> plainValue v \<and> (\<forall>x. v \<noteq> JDate x)
             \<and> newDate E v = UTCDate y mo d h mi s ms \<longrightarrow>
           toDatabase E (Some (Property p)) v =
             Inr (JStr (''\"'' @ showInt y @ ''-'' @ twoDigits (mo + 1) @ ''-'' @ twoDigits d
                        @ '' '' @ twoDigits h @ '':'' @ twoDigits mi @ '':'' @ twoDigits s
                        @ ''\"''), v)))
   \<and> (0 \<le> y \<longrightarrow> (length (showInt y) = 4) = (1000 \<le> y \<and> y < 10000))"
proof (intro conjI impI)
  assume t: "type_name p = ''Date''"
  show "toDatabase E (Some (Property p)) JUndefined = Inr (JUndefined, JUndefined)" by simp
  { assume "\<not> truthy v \<and> v \<noteq> JUndefined"
    then show "toDatabase E (Some (Property p)) v = Inr (JStr ''NULL'', v)"
      using t by (cases v) (simp_all add: toDatabaseTyped_def) }
  { assume a: "mo < 12 \<and> 1 \<le> d \<and> d < 32 \<and> h < 24 \<and> mi < 60 \<and> s < 60"
    then have dm: "dateToMysql E (UTCDate y mo d h mi s ms) =
        showInt y @ ''-'' @ twoDigits (mo + 1) @ ''-'' @ twoDigits d @ '' ''
           @ twoDigits h @ '':'' @ twoDigits mi @ '':'' @ twoDigits s"
      by (simp add: dateToMysql_valid)
    then show "toDatabase E (Some (Property p)) (JDate (UTCDate y mo d h mi s ms)) =
          Inr (JStr (''\"'' @ showInt y @ ''-'' @ twoDigits (mo + 1) @ ''-'' @ twoDigits d @ '' ''
                     @ twoDigits h @ '':'' @ twoDigits mi @ '':'' @ twoDigits s @ ''\"''),
               JDate (UTCDate y mo d h mi s ms))"
      using t by (simp add: toDatabaseTyped_def asDate_def)
    assume b: "truthy v \<and> plainValue v \<and> (\<forall>x. v \<noteq> JDate x)
             \<and> newDate E v = UTCDate y mo d h mi s ms"
    then have "asDate E v = UTCDate y mo d h mi s ms"
      by (cases v) (auto simp: asDate_def)
    then show "toDatabase E (Some (Property p)) v =
             Inr (JStr (''\"'' @ showInt y @ ''-'' @ twoDigits (mo + 1) @ ''-'' @ twoDigits d
                        @ '' '' @ twoDigits h @ '':'' @ twoDigits mi @ '':'' @ twoDigits s
                        @ ''\"''), v)"
      using b t dm by (simp add: toDatabase_plain toDatabaseTyped_def) }
  { assume "0 \<le> y"
    then have "\<not> y < 0" "(1000 \<le> y) = (1000 \<le> nat y)" "(y < 10000) = (nat y < 10000)"
      by linarith+
    then show "(length (showInt y) = 4) = (1000 \<le> y \<and> y < 10000)"
      using length_showNat_eq_4 [of "nat y"] by (simp add: showInt_def) }
qed

theorem toDatabase_date_witness:
  "toDatabase exampleRuntime (propertyOf exampleModel ''born'') (JNum 0)
     = Inr (JStr ''NULL'', JNum 0)
   \<and> toDatabase exampleRuntime (propertyOf exampleModel ''born'')
         (JDate (UTCDate 2021 2 4 5 6 7 8))
     = Inr (JStr (''\"2021-03-04 05:06:07\"''), JDate (UTCDate 2021 2 4 5 6 7 8))
   \<and> newDate exampleRuntime (JNum 1614834367000) = UTCDate 2021 2 4 5 6 7 0
   \<and> toDatabase exampleRuntime (propertyOf exampleModel ''born'') (JNum 1614834367000)
     = Inr (JStr (''\"2021-03-04 05:06:07\"''), JNum 1614834367000)
   \<and> length (showInt 2021) = 4"
  using toDatabase_date
          [of "\<lparr>type_name = ''Date'', limit = 0, allowNull = None, null_opt = None,
                 index = None\<rparr>" "JNum 0" exampleRuntime 2 4 5 6 7 2021 8]
        toDatabase_date
          [of "\<lparr>type_name = ''Date'', limit = 0, allowNull = None, null_opt = None,
                 index = None\<rparr>" "JNum 1614834367000" exampleRuntime 2 4 5 6 7 2021 0]
  by (simp add: twoDigits_def digitChar_def newDate_example showInt_2021)

text \<open>
  The counterexample to C6 as stated: undefined is falsy and is not encoded as
  \<open>NULL\<close>, and the tenth of October of the year 5 has no four-digit year.
\<close>

theorem toDatabase_date_undefined_and_year_5:
  "\<not> truthy JUndefined
   \<and> toDatabase exampleRuntime (propertyOf exampleModel ''born'') JUndefined
       = Inr (JUndefined, JUndefined)
   \<and> toDatabase exampleRuntime (propertyOf exampleModel ''born'')
         (JDate (UTCDate 5 9 10 0 0 0 0))
       = Inr (JStr ''\"5-10-10 00:00:00\"'', JDate (UTCDate 5 9 10 0 0 0 0))"
  by (simp add: toDatabaseTyped_def asDate_def dateToMysql_def getUTC_def plusOne_def
        fillZeros_def showInt_def digitChar_def showNat.simps [of 10])

section \<open>Properties of the executor\<close>

text \<open>
  C7. When \<open>all\<close> has built its statement, it returns with a call pending at the
  pool. When the pool or the connection then answers with an error (a truthy
  \<open>poolErr\<close>, or no pool error and a truthy \<open>err\<close>), the caller's callback is called
  with that very error and an empty array.
\<close>

theorem all_passes_error_with_empty_result:
  "allSql E m model flt = Inr (sql, flt') \<Longrightarrow>
     \<exists>h. all E log m model flt = Inr (sql, flt', h)
       \<and> (\<forall>reply.
            (\<not> truthy (poolErr reply) \<and> truthy (err reply) \<longrightarrow>
               replyTo h reply =
                 Inr (ConnectionQuery sql # (if log then [Log sql] else []) @ [ConnectionEnd],
                      Inr (Callback (err reply) [])))
          \<and> (truthy (poolErr reply) \<longrightarrow>
               replyTo h reply = Inr ([], Inr (Callback (poolErr reply) []))))"
  by (simp add: all_def query_def replyTo_def onConnection_def onResult_def allCallback_def)

theorem all_passes_error_with_empty_result_witness:
  "allSql exampleRuntime exampleModel ''User'' None = Inr (''SELECT * FROM `User`'', None)
   \<and> (\<exists>h. all exampleRuntime False exampleModel ''User'' None
              = Inr (''SELECT * FROM `User`'', None, h)
         \<and> replyTo h \<lparr>poolErr = JNull, err = JStr ''ER_NO_SUCH_TABLE'', data = None\<rparr>
             = Inr ([ConnectionQuery ''SELECT * FROM `User`'', ConnectionEnd],
                    Inr (Callback (JStr ''ER_NO_SUCH_TABLE'') []))
         \<and> replyTo h \<lparr>poolErr = JStr ''ECONNREFUSED'', err = JNull, data = None\<rparr>
             = Inr ([], Inr (Callback (JStr ''ECONNREFUSED'') [])))"
proof -
  have s: "allSql exampleRuntime exampleModel ''User'' None = Inr (''SELECT * FROM `User`'', None)"
    by (simp add: allSql_def exampleRuntime_def escapeName_def)
  from all_passes_error_with_empty_result [OF s, of False]
  obtain h where h: "all exampleRuntime False exampleModel ''User'' None
              = Inr (''SELECT * FROM `User`'', None, h)"
    and r: "\<And>reply. \<not> truthy (poolErr reply) \<and> truthy (err reply) \<Longrightarrow>
               replyTo h reply =
                 Inr (ConnectionQuery ''SELECT * FROM `User`''
                        # (if False then [Log ''SELECT * FROM `User`''] else []) @ [ConnectionEnd],
                      Inr (Callback (err reply) []))"
    and p: "\<And>reply. truthy (poolErr reply) \<Longrightarrow>
               replyTo h reply = Inr ([], Inr (Callback (poolErr reply) []))"
    by blast
  show ?thesis
    using s h r [of "\<lparr>poolErr = JNull, err = JStr ''ER_NO_SUCH_TABLE'', data = None\<rparr>"]
      p [of "\<lparr>poolErr = JStr ''ECONNREFUSED'', err = JNull, data = None\<rparr>"]
    by auto
qed




section \<open>Properties of the schema differ\<close>

lemma map_of_update_all:
  "map_of (map (\<lambda>(name, entry). if name = k then (name, v) else (name, entry)) ai) n =
     (if n = k then (if map_of ai n = None then None else Some v) else map_of ai n)"
  by (induction ai) auto

lemma map_fst_update_all:
  "map fst (map (\<lambda>(name, entry). if name = k then (name, v) else (name, entry)) ai) = map fst ai"
  by (induction ai) auto

lemma addRow_Inr:
  assumes "Key_name i \<notin> set prototypeMembers"
  shows "\<exists>ai'. addRow i ai = Inr ai'
     \<and> (\<forall>n. map_of ai' n =
           (if n = Key_name i then
              (case map_of ai n of
                 None \<Rightarrow> Some (i, Map.empty(Seq_in_index i - 1 \<mapsto> Column_name i))
               | Some (info, cols) \<Rightarrow> Some (info, cols(Seq_in_index i - 1 \<mapsto> Column_name i)))
            else map_of ai n))
     \<and> (distinct (map fst ai) \<longrightarrow> distinct (map fst ai'))"
proof (cases "map_of ai (Key_name i)")
  case None
  then have "Key_name i \<notin> fst ` set ai" by (simp add: map_of_eq_None_iff)
  with None assms show ?thesis
    by (auto simp: addRow_def map_add_def split: option.splits)
next
  case (Some e)
  obtain info cols where e: "e = (info, cols)" by (cases e)
  have "distinct (map fst ai) \<longrightarrow>
          distinct (map fst (map (\<lambda>(name, entry).
                      if name = Key_name i
                      then (name, (info, cols(Seq_in_index i - 1 \<mapsto> Column_name i)))
                      else (name, entry)) ai))"
    by (simp only: map_fst_update_all) simp
  then show ?thesis
    using Some e by (simp add: addRow_def map_of_update_all)
qed

lemma find_append_case:
  "find P (xs @ ys) = (case find P xs of None \<Rightarrow> find P ys | Some x \<Rightarrow> Some x)"
  by (induction xs) auto

lemma groupIndexes_Inr:
  assumes "\<forall>r\<in>set rows. Key_name r \<notin> set prototypeMembers"
  shows "\<exists>ai'. groupIndexes rows ai = Inr ai'
     \<and> (\<forall>n. (map_of ai' n = None) = (map_of ai n = None \<and> n \<notin> Key_name ` set rows))
     \<and> (\<forall>n j. colsOf ai' n j =
           (case find (\<lambda>r. Key_name r = n \<and> Seq_in_index r - 1 = j) (rev rows) of
              Some r \<Rightarrow> Some (Column_name r)
            | None \<Rightarrow> colsOf ai n j))
     \<and> (distinct (map fst ai) \<longrightarrow> distinct (map fst ai'))"
  using assms
proof (induction rows arbitrary: ai)
  case Nil
  show ?case by simp
next
  case (Cons i rows)
  from Cons.prems have k: "Key_name i \<notin> set prototypeMembers"
    and rest: "\<forall>r\<in>set rows. Key_name r \<notin> set prototypeMembers"
    by simp_all
  from addRow_Inr [OF k, of ai] obtain ai1 where a1: "addRow i ai = Inr ai1"
    and m1: "\<And>n. map_of ai1 n =
           (if n = Key_name i then
              (case map_of ai n of
                 None \<Rightarrow> Some (i, Map.empty(Seq_in_index i - 1 \<mapsto> Column_name i))
               | Some (info, cols) \<Rightarrow> Some (info, cols(Seq_in_index i - 1 \<mapsto> Column_name i)))
            else map_of ai n)"
    and d1: "distinct (map fst ai) \<longrightarrow> distinct (map fst ai1)"
    by blast
  from Cons.IH [OF rest, of ai1] obtain ai' where g: "groupIndexes rows ai1 = Inr ai'"
    and n: "\<And>n. (map_of ai' n = None) = (map_of ai1 n = None \<and> n \<notin> Key_name ` set rows)"
    and c: "\<And>n j. colsOf ai' n j =
           (case find (\<lambda>r. Key_name r = n \<and> Seq_in_index r - 1 = j) (rev rows) of
              Some r \<Rightarrow> Some (Column_name r)
            | None \<Rightarrow> colsOf ai1 n j)"
    and d: "distinct (map fst ai1) \<longrightarrow> distinct (map fst ai')"
    by blast
  have c1: "\<And>n j. colsOf ai1 n j =
          (if Key_name i = n \<and> Seq_in_index i - 1 = j then Some (Column_name i) else colsOf ai n j)"
    by (auto simp: colsOf_def m1 split: option.splits)
  have "groupIndexes (i # rows) ai = Inr ai'"
    using a1 g by simp
  moreover have "\<forall>n. (map_of ai' n = None) = (map_of ai n = None \<and> n \<notin> Key_name ` set (i # rows))"
    by (auto simp: n m1 split: option.splits)
  moreover have "\<forall>n j. colsOf ai' n j =
           (case find (\<lambda>r. Key_name r = n \<and> Seq_in_index r - 1 = j) (rev (i # rows)) of
              Some r \<Rightarrow> Some (Column_name r)
            | None \<Rightarrow> colsOf ai n j)"
    by (auto simp: c c1 find_append_case split: option.splits)
  moreover have "distinct (map fst ai) \<longrightarrow> distinct (map fst ai')"
    using d1 d by blast
  ultimately show ?case by blast
qed

lemma set_objectKeys: "set (objectKeys ks) = set ks"
  by (auto simp: objectKeys_def)

lemma distinct_objectKeys: "distinct ks \<Longrightarrow> distinct (objectKeys ks)"
  by (auto simp: objectKeys_def)

lemma map_of_filter_neq:
  "map_of (filter (\<lambda>(name, entry). name \<noteq> k) ai) n = (if n = k then None else map_of ai n)"
  by (induction ai) auto

lemma compositeOf_indexNames:
  "compositeOf m n = Some i \<Longrightarrow> n \<in> set (indexNames m)"
  by (auto simp: indexNames_def compositeOf_def split: option.splits
        dest!: map_of_SomeD intro!: image_eqI [where x = "(n, Some i)"])

lemma indexNames_compositeOf:
  "n \<in> set (indexNames m) \<Longrightarrow> \<exists>i. compositeOf m n = Some i"
  by (auto simp: indexNames_def split: option.splits)

lemma propNames_propertyOf:
  "n \<in> set (propNames m) \<Longrightarrow> \<exists>p. propertyOf m n = Some (Property p)"
  by (auto simp: propNames_def propertyOf_def map_of_eq_None_iff
        split: option.splits dest: weak_map_of_SomeI)

lemma removeIndex_Inr:
  assumes "map_of ai a \<noteq> None"
  shows "\<exists>sql ai'. removeIndex m a ai = Inr (sql, ai')
     \<and> (\<forall>x. map_of ai x = None \<longrightarrow> map_of ai' x = None)
     \<and> (\<forall>x. x \<noteq> a \<longrightarrow> map_of ai' x = map_of ai x)"
  using assms by (auto simp: removeIndex_def map_of_filter_neq)

lemma removeIndex_mismatch:
  assumes "compositeOf m n = Some i" "n \<noteq> ''id''" "n \<noteq> ''PRIMARY''"
    and "\<not> indexMissing (propertyOf m n)"
    and "map_of ai n = Some (info, cols)" "\<not> orderMatched m n cols"
  shows "removeIndex m n ai =
           Inr ([''DROP INDEX `'' @ n @ ''`''], filter (\<lambda>(name, entry). name \<noteq> n) ai)"
  using assms compositeOf_indexNames [OF assms(1)] by (auto simp: removeIndex_def)

lemma removeIndexes_Inr:
  assumes "compositeOf m n = Some i" "n \<noteq> ''id''" "n \<noteq> ''PRIMARY''"
    and "\<not> indexMissing (propertyOf m n)"
  shows "distinct names \<Longrightarrow> \<forall>x\<in>set names. map_of ai x \<noteq> None \<Longrightarrow>
     \<exists>sqls ai'. removeIndexes m names ai = Inr (sqls, ai')
       \<and> (\<forall>x. map_of ai x = None \<longrightarrow> map_of ai' x = None)
       \<and> (\<forall>x. x \<notin> set names \<longrightarrow> map_of ai' x = map_of ai x)
       \<and> (\<forall>info cols. n \<in> set names \<and> map_of ai n = Some (info, cols)
             \<and> \<not> orderMatched m n cols \<longrightarrow>
             ''DROP INDEX `'' @ n @ ''`'' \<in> set sqls \<and> map_of ai' n = None)"
proof (induction names arbitrary: ai)
  case Nil
  show ?case by simp
next
  case (Cons a names)
  from Cons.prems have da: "a \<notin> set names" and dn: "distinct names"
    and ha: "map_of ai a \<noteq> None" and hn: "\<forall>x\<in>set names. map_of ai x \<noteq> None"
    by simp_all
  from removeIndex_Inr [OF ha, of m] obtain sql ai1 where r1: "removeIndex m a ai = Inr (sql, ai1)"
    and none1: "\<And>x. map_of ai x = None \<Longrightarrow> map_of ai1 x = None"
    and other1: "\<And>x. x \<noteq> a \<Longrightarrow> map_of ai1 x = map_of ai x"
    by blast
  have "\<forall>x\<in>set names. map_of ai1 x \<noteq> None"
  proof
    fix x assume x: "x \<in> set names"
    with da have "x \<noteq> a" by auto
    then show "map_of ai1 x \<noteq> None" using hn x by (simp add: other1)
  qed
  from Cons.IH [OF dn this] obtain sqls ai' where rs: "removeIndexes m names ai1 = Inr (sqls, ai')"
    and none: "\<And>x. map_of ai1 x = None \<Longrightarrow> map_of ai' x = None"
    and other: "\<And>x. x \<notin> set names \<Longrightarrow> map_of ai' x = map_of ai1 x"
    and drop: "\<And>info cols. n \<in> set names \<Longrightarrow> map_of ai1 n = Some (info, cols)
             \<Longrightarrow> \<not> orderMatched m n cols \<Longrightarrow>
             ''DROP INDEX `'' @ n @ ''`'' \<in> set sqls \<and> map_of ai' n = None"
    by blast
  have 1: "removeIndexes m (a # names) ai = Inr (sql @ sqls, ai')"
    using r1 rs by simp
  have 2: "\<forall>x. map_of ai x = None \<longrightarrow> map_of ai' x = None"
    using none1 none by blast
  have 3: "\<forall>x. x \<notin> set (a # names) \<longrightarrow> map_of ai' x = map_of ai x"
    using other1 other by simp
  have 4: "\<forall>info cols. n \<in> set (a # names) \<and> map_of ai n = Some (info, cols)
             \<and> \<not> orderMatched m n cols \<longrightarrow>
             ''DROP INDEX `'' @ n @ ''`'' \<in> set (sql @ sqls) \<and> map_of ai' n = None"
  proof (intro allI impI)
    fix info cols
    assume h: "n \<in> set (a # names) \<and> map_of ai n = Some (info, cols)
                 \<and> \<not> orderMatched m n cols"
    show "''DROP INDEX `'' @ n @ ''`'' \<in> set (sql @ sqls) \<and> map_of ai' n = None"
    proof (cases "a = n")
      case True
      from removeIndex_mismatch [OF assms(1-4), of ai info cols] h
      have "removeIndex m n ai =
              Inr ([''DROP INDEX `'' @ n @ ''`''], filter (\<lambda>(name, entry). name \<noteq> n) ai)"
        by simp
      with r1 True have s: "sql = [''DROP INDEX `'' @ n @ ''`'']"
        and a1: "ai1 = filter (\<lambda>(name, entry). name \<noteq> n) ai"
        by simp_all
      have "map_of ai1 n = None" by (simp add: a1 map_of_filter_neq)
      then have "map_of ai' n = None" by (rule none)
      with s show ?thesis by simp
    next
      case False
      with h have "n \<in> set names" by simp
      moreover have "map_of ai1 n = Some (info, cols)"
        using False h other1 [of n] by simp
      ultimately show ?thesis using drop h by simp
    qed
  qed
  from 1 2 3 4 show ?case by blast
qed

lemma forEachPush_Inr:
  "\<forall>x\<in>set xs. \<exists>ys. f x = Inr ys \<Longrightarrow>
     \<exists>zs. forEachPush f xs = Inr zs \<and> (\<forall>x\<in>set xs. \<forall>ys. f x = Inr ys \<longrightarrow> set ys \<subseteq> set zs)"
proof (induction xs)
  case Nil
  show ?case by simp
next
  case (Cons x xs)
  from Cons.prems obtain ys where y: "f x = Inr ys" by auto
  from Cons obtain zs where z: "forEachPush f xs = Inr zs"
    and s: "\<forall>x\<in>set xs. \<forall>ys. f x = Inr ys \<longrightarrow> set ys \<subseteq> set zs"
    by auto
  have "forEachPush f (x # xs) = Inr (ys @ zs)" using y z by simp
  moreover have "\<forall>x'\<in>set (x # xs). \<forall>ys'. f x' = Inr ys' \<longrightarrow> set ys' \<subseteq> set (ys @ zs)"
    using y s by auto
  ultimately show ?case by blast
qed

lemma changeOrAdd_Inr:
  "n \<in> set (propNames m) \<Longrightarrow> \<exists>ys. changeOrAdd m actualFields n = Inr ys"
  using propNames_propertyOf [of n m]
  by (auto simp: changeOrAdd_def actualize_def split: option.splits)

lemma addSingleIndex_Inr:
  "n \<in> set (propNames m) \<Longrightarrow> \<exists>ys. addSingleIndex m ai n = Inr ys"
  using propNames_propertyOf [of n m]
  by (auto simp: addSingleIndex_def split: option.splits)

lemma addMultiIndex_Inr:
  "n \<in> set (indexNames m) \<Longrightarrow> \<exists>ys. addMultiIndex m ai n = Inr ys"
  using indexNames_compositeOf [of n m]
  by (auto simp: addMultiIndex_def)

text \<open>
  C3, as amended. Let \<open>n\<close> be a declared composite index, not named \<open>id\<close> or
  \<open>PRIMARY\<close> (line 430 skips these names) and not named as a property that is
  declared without an index, and let no live index bear the name of a member of
  \<open>Object.prototype\<close> (on a row of such a name line 393 throws). If the live table
  has an index \<open>n\<close> and, at some position \<open>k\<close> of the declared columns, the live
  index holds another column than the declared one (or none), then alterTable
  collects its fragments without throwing, and they hold both \<open>DROP INDEX `n`\<close> and
  the \<open>ADD INDEX\<close> fragment of \<open>n\<close>.
\<close>

theorem alterTable_reorders_composite_index:
  assumes "indexes m = Some ixs" "map_of ixs n = Some (Some i)"
    and "n \<noteq> ''id''" "n \<noteq> ''PRIMARY''"
    and "map_of (properties m) n = None \<or> map_of (properties m) n = Some None
           \<or> (\<exists>p ix. map_of (properties m) n = Some (Some p) \<and> index p = Some ix)"
    and "n \<in> Key_name ` set rows"
    and "\<forall>r\<in>set rows. Key_name r \<notin> set prototypeMembers"
    and "k < length (splitCommas (columns i))"
    and "liveColumnAt rows n k \<noteq> Some (splitCommas (columns i) ! k)"
  shows "\<exists>sql. alterTableSql m actualFields (Some rows) = Inr sql
           \<and> ''DROP INDEX `'' @ n @ ''`'' \<in> set sql
           \<and> multiIndexFragment n i \<in> set sql"
proof -
  have comp: "compositeOf m n = Some i"
    using assms(1,2) by (simp add: compositeOf_def)
  have "n \<notin> set prototypeMembers"
    using assms(6,7) by auto
  with assms(5) have idx: "\<not> indexMissing (propertyOf m n)"
    by (auto simp: indexMissing_def propertyOf_def)
  from groupIndexes_Inr [OF assms(7), of "[]"] obtain ai where
    gi: "groupIndexes rows [] = Inr ai
     \<and> (\<forall>x. (map_of ai x = None)
              = (map_of ([] :: (string \<times> live_index) list) x = None
                 \<and> x \<notin> Key_name ` set rows))
     \<and> (\<forall>x j. colsOf ai x j =
           (case find (\<lambda>r. Key_name r = x \<and> Seq_in_index r - 1 = j) (rev rows) of
              Some r \<Rightarrow> Some (Column_name r)
            | None \<Rightarrow> colsOf [] x j))
     \<and> (distinct (map fst ([] :: (string \<times> live_index) list))
            \<longrightarrow> distinct (map fst ai))"
    by (elim exE) (rule that)
  from gi have g: "groupIndexes rows [] = Inr ai" by (elim conjE)
  from gi have none: "\<And>x. (map_of ai x = None) = (x \<notin> Key_name ` set rows)" by simp
  from gi have c: "\<And>x j. colsOf ai x j =
           (case find (\<lambda>r. Key_name r = x \<and> Seq_in_index r - 1 = j) (rev rows) of
              Some r \<Rightarrow> Some (Column_name r)
            | None \<Rightarrow> colsOf [] x j)" by simp
  from gi have d: "distinct (map fst ai)" by simp
  obtain info cols where ai: "map_of ai n = Some (info, cols)"
    using assms(6) none [of n] by (cases "map_of ai n") auto
  have eq: "(\<lambda>r. Key_name r = n \<and> Seq_in_index r - 1 = int k)
          = (\<lambda>r. Key_name r = n \<and> Seq_in_index r = int k + 1)"
    by auto
  have "colsOf ai n (int k) = liveColumnAt rows n k"
    by (simp only: c eq liveColumnAt_def) (simp add: colsOf_def split: option.splits)
  then have cols: "cols (int k) = liveColumnAt rows n k"
    using ai by (simp add: colsOf_def)
  have mismatch: "\<not> orderMatched m n cols"
    using comp assms(8,9) cols
    by (auto simp: orderMatched_def Let_def list_all_iff intro!: bexI [where x = k])
  have dist: "distinct (objectKeys (map fst ai))"
    using d by (simp add: distinct_objectKeys)
  have names: "n \<in> set (objectKeys (map fst ai))"
    using ai
    by (auto simp: set_objectKeys dest!: map_of_SomeD
          intro!: image_eqI [where x = "(n, (info, cols))"])
  have present: "\<forall>x\<in>set (objectKeys (map fst ai)). map_of ai x \<noteq> None"
    by (auto simp: set_objectKeys map_of_eq_None_iff)
  from removeIndexes_Inr [OF comp assms(3,4) idx dist present]
  obtain removed ai' where
    ri: "removeIndexes m (objectKeys (map fst ai)) ai = Inr (removed, ai')
       \<and> (\<forall>x. map_of ai x = None \<longrightarrow> map_of ai' x = None)
       \<and> (\<forall>x. x \<notin> set (objectKeys (map fst ai)) \<longrightarrow> map_of ai' x = map_of ai x)
       \<and> (\<forall>info cols. n \<in> set (objectKeys (map fst ai)) \<and> map_of ai n = Some (info, cols)
             \<and> \<not> orderMatched m n cols \<longrightarrow>
             ''DROP INDEX `'' @ n @ ''`'' \<in> set removed \<and> map_of ai' n = None)"
    by (elim exE) (rule that)
  from ri have r: "removeIndexes m (objectKeys (map fst ai)) ai = Inr (removed, ai')"
    by (elim conjE)
  from ri have "n \<in> set (objectKeys (map fst ai)) \<and> map_of ai n = Some (info, cols)
             \<and> \<not> orderMatched m n cols \<longrightarrow>
             ''DROP INDEX `'' @ n @ ''`'' \<in> set removed \<and> map_of ai' n = None"
    by (elim conjE) (erule allE, erule allE)
  with names ai mismatch
  have dr: "''DROP INDEX `'' @ n @ ''`'' \<in> set removed" and gone: "map_of ai' n = None"
    by simp_all
  obtain changes where ch: "forEachPush (changeOrAdd m actualFields) (propNames m) = Inr changes"
    using forEachPush_Inr [of "propNames m" "changeOrAdd m actualFields"] changeOrAdd_Inr
    by blast
  obtain singles where si: "forEachPush (addSingleIndex m ai') (propNames m) = Inr singles"
    using forEachPush_Inr [of "propNames m" "addSingleIndex m ai'"] addSingleIndex_Inr
    by blast
  obtain multis where mu: "forEachPush (addMultiIndex m ai') (indexNames m) = Inr multis"
    and sub: "\<forall>x\<in>set (indexNames m). \<forall>ys. addMultiIndex m ai' x = Inr ys \<longrightarrow> set ys \<subseteq> set multis"
    using forEachPush_Inr [of "indexNames m" "addMultiIndex m ai'"] addMultiIndex_Inr
    by blast
  have "addMultiIndex m ai' n = Inr [multiIndexFragment n i]"
    using comp gone by (simp add: addMultiIndex_def)
  with sub compositeOf_indexNames [OF comp] have ad: "multiIndexFragment n i \<in> set multis"
    by fastforce
  show ?thesis
    using g ch r si mu dr ad by (simp add: alterTableSql_def Let_def)
qed

theorem alterTable_reorders_composite_index_witness:
  "alterTableSql (compositeModel ''ab'') (Some liveFields)
       (Some (liveIndexes ''ab'' [''b'', ''a'']))
     = Inr [''DROP INDEX `ab`'', ''ADD  INDEX  `ab` (a, b)'']
   \<and> (\<exists>sql. alterTableSql (compositeModel ''ab'') (Some liveFields)
            (Some (liveIndexes ''ab'' [''b'', ''a''])) = Inr sql
      \<and> ''DROP INDEX `ab`'' \<in> set sql \<and> ''ADD  INDEX  `ab` (a, b)'' \<in> set sql)"
proof -
  have e: "alterTableSql (compositeModel ''ab'') (Some liveFields)
       (Some (liveIndexes ''ab'' [''b'', ''a'']))
     = Inr [''DROP INDEX `ab`'', ''ADD  INDEX  `ab` (a, b)'']"
    by code_simp
  let ?i = "\<lparr>index_type = [], index_kind = [], columns = ''a, b''\<rparr>"
  have h1: "indexes (compositeModel ''ab'') = Some [(''ab'', Some ?i)]"
    by (simp add: compositeModel_def)
  have h2: "map_of [(''ab'', Some ?i)] ''ab'' = Some (Some ?i)"
    by simp
  have h3: "''ab'' \<noteq> ''id''" and h4: "''ab'' \<noteq> ''PRIMARY''"
    by simp_all
  have h5: "map_of (properties (compositeModel ''ab'')) ''ab'' = None
              \<or> map_of (properties (compositeModel ''ab'')) ''ab'' = Some None
              \<or> (\<exists>p ix. map_of (properties (compositeModel ''ab'')) ''ab'' = Some (Some p)
                    \<and> index p = Some ix)"
    by (simp add: compositeModel_def)
  have h6: "''ab'' \<in> Key_name ` set (liveIndexes ''ab'' [''b'', ''a''])"
    by (simp add: liveIndexes_def)
  have h7: "\<forall>r\<in>set (liveIndexes ''ab'' [''b'', ''a'']). Key_name r \<notin> set prototypeMembers"
    by (simp add: liveIndexes_def prototypeMembers_def)
  have s: "splitCommas ''a, b'' = [''a'', ''b'']"
    by code_simp
  have h8: "0 < length (splitCommas (columns ?i))"
    by (simp add: s)
  have l: "liveColumnAt (liveIndexes ''ab'' [''b'', ''a'']) ''ab'' 0 = Some ''b''"
    by code_simp
  have h9: "liveColumnAt (liveIndexes ''ab'' [''b'', ''a'']) ''ab'' 0
              \<noteq> Some (splitCommas (columns ?i) ! 0)"
    by (simp add: s l)
  have f: "multiIndexFragment ''ab'' ?i = ''ADD  INDEX  `ab` (a, b)''"
    by (simp add: multiIndexFragment_def)
  from alterTable_reorders_composite_index [OF h1 h2 h3 h4 h5 h6 h7 h8 h9, of "Some liveFields"]
  have "\<exists>sql. alterTableSql (compositeModel ''ab'') (Some liveFields)
            (Some (liveIndexes ''ab'' [''b'', ''a''])) = Inr sql
      \<and> ''DROP INDEX `ab`'' \<in> set sql \<and> ''ADD  INDEX  `ab` (a, b)'' \<in> set sql"
    by (simp add: f)
  with e show ?thesis by (rule conjI)
qed

text \<open>
  The counterexample to C3 as stated: the composite index \<open>id\<close> is declared on
  \<open>a, b\<close>, the live index \<open>id\<close> is on \<open>b, a\<close>, and the diff emits nothing, so the
  index stays as it is.
\<close>

theorem alterTable_keeps_index_named_id:
  "compositeOf (compositeModel ''id'') ''id''
     = Some \<lparr>index_type = [], index_kind = [], columns = ''a, b''\<rparr>
   \<and> splitCommas ''a, b'' = [''a'', ''b'']
   \<and> liveColumnAt (liveIndexes ''id'' [''b'', ''a'']) ''id'' 0 = Some ''b''
   \<and> liveColumnAt (liveIndexes ''id'' [''b'', ''a'']) ''id'' 1 = Some ''a''
   \<and> alterTableSql (compositeModel ''id'') (Some liveFields)
         (Some (liveIndexes ''id'' [''b'', ''a''])) = Inr []"
  by code_simp

text \<open>
  C1. The diff is not idempotent when a composite index bears the name of a
  property that is declared without an index. For the model with the property
  \<open>label\<close> and the composite index \<open>label\<close> on \<open>a, b\<close>: against a table without
  that index the diff emits the \<open>ADD INDEX\<close> fragment (lines 478-496 take the name
  for a declared index); against the table that has the index on \<open>a, b\<close>, which is
  what the statement leaves, it emits \<open>DROP INDEX `label`\<close> (the second disjunct of
  line 431 takes the same name for an index that is no longer declared), and in
  check-only mode reports that the table needs altering.
\<close>

theorem alterTable_not_idempotent_on_name_clash:
  "alterTableSql (compositeModel ''label'') (Some liveFields) (Some (liveIndexes ''label'' []))
     = Inr [''ADD  INDEX  `label` (a, b)'']
   \<and> alterTableSql (compositeModel ''label'') (Some liveFields)
         (Some (liveIndexes ''label'' [''a'', ''b'']))
     = Inr [''DROP INDEX `label`'']
   \<and> alterTable exampleRuntime (compositeModel ''label'') ''Item'' (Some liveFields)
         (Some (liveIndexes ''label'' [''a'', ''b''])) True
     = Inr (DoneNeedAlter [''DROP INDEX `label`''] ''ALTER TABLE `Item` DROP INDEX `label`'')"
  by code_simp

end
